theory Spec2Isabelle
  imports Complex_Main "HOL-Library.AList"
begin

section \<open>Data model\<close>

text \<open>
  The planning utilities of package \<open>motionplan\<close>: the linearized frame system, the motion
  chains, pivot search and the result promise. Package \<open>referenceframe\<close> (frames, the frame
  system, poses in a frame) is a collaborator whose code is not part of the sources at hand;
  its operations enter the functions below as parameters.

  A \<open>float64\<close> is carried as a real number. Every function modelled here only copies such
  values; none of them computes with one.
\<close>

type_synonym float64 = real

text \<open>
  Modelled from the spec: the bounds of one degree of freedom (\<open>referenceframe.Limit\<close>, whose
  declaration is not among the sources).
\<close>

record Limit =
  Min_limit :: float64
  Max_limit :: float64

text \<open>
  Modelled from the spec: a frame is a named node with zero or more degrees of freedom with
  bounds (\<open>referenceframe.Frame\<close>, an interface whose declaration is not among the sources).
  The record holds what this package asks of a frame: its name (\<open>Name()\<close>), its limits
  (\<open>DoF()\<close>, of which only the number is ever used), and whether its dynamic type implements
  \<open>tpspace.PTGProvider\<close>. Frames are interface values holding pointers, so the source's
  \<open>==\<close> and its maps keyed by frames compare identities: \<open>addr\<close> is that identity, and
  equality of two records is equality of two frame objects.
\<close>

record frame =
  addr :: nat
  name :: string
  DoF :: "Limit list"
  isPTG :: bool

text \<open>
  Modelled from the spec: one joint value (\<open>referenceframe.Input\<close>, whose declaration is not
  among the sources; the source builds it as \<open>Input{Value: v}\<close> and reads \<open>i.Value\<close>).
\<close>

record Input =
  Value :: float64

text \<open>
  A Go map is an association list with distinct keys: \<open>map_of\<close> looks a key up,
  \<open>AList.update\<close> assigns, and the order of the list is the order in which one run of
  \<open>range\<close> visits the entries. Go leaves that order open; the theorems hold for every order.
\<close>

type_synonym FrameSystemInputs = "(string \<times> Input list) list"

text \<open>The constant \<open>referenceframe.World\<close>.\<close>

definition World :: string where
  "World = ''world''"

text \<open>
  The errors of the package, one constructor per message, and \<open>Collaborator\<close> for an error
  that a frame system operation hands back. \<open>NilDereference\<close> is the panic of a method call
  on a nil frame.
\<close>

datatype error =
    FrameMissing string
  | MissingFromInputMap string
  | NotEnoughValues string
  | NoMotionChain
  | OnlyOnePTGFrame
  | MixedFrameTypes
  | SolveFrameListEmpty
  | NoPath
  | NilDereference
  | Collaborator string

section \<open>The linearized frame system\<close>

text \<open>
  \<open>linearizedFrameSystem\<close>: the wrapped frame system, the cached ordering of its frames and
  the concatenated limits.
\<close>

record 'fs linearizedFrameSystem =
  lfs_fs :: 'fs
  lfs_frames :: "frame list"
  lfs_dof :: "Limit list"

text \<open>
  \<open>mapToSlice\<close>: the loop over \<open>lfs.frames\<close>, with \<open>floatSlice\<close> as the accumulator. A frame
  without degrees of freedom is skipped; a moving frame without an entry in \<open>inputs\<close> is an
  error; otherwise every value of the entry is appended, however many there are.
\<close>

fun mapToSlice_loop :: "frame list \<Rightarrow> FrameSystemInputs \<Rightarrow> float64 list \<Rightarrow> error + float64 list" where
  "mapToSlice_loop [] inputs floatSlice = Inr floatSlice"
| "mapToSlice_loop (frame # rest) inputs floatSlice =
     (if length (DoF frame) = 0 then mapToSlice_loop rest inputs floatSlice
      else case map_of inputs (name frame) of
             None \<Rightarrow> Inl (MissingFromInputMap (name frame))
           | Some input \<Rightarrow> mapToSlice_loop rest inputs (floatSlice @ map Value input))"

definition mapToSlice :: "'fs linearizedFrameSystem \<Rightarrow> FrameSystemInputs \<Rightarrow> error + float64 list" where
  "mapToSlice lfs inputs = mapToSlice_loop (lfs_frames lfs) inputs []"

text \<open>
  The inner loop of \<open>sliceToMap\<close>: \<open>n\<close> slots of \<open>frameInputs\<close> are still to be filled, the
  next one from \<open>floatSlice[i]\<close>. It returns the filled slots and the advanced index, or
  \<open>None\<close> when the slice runs out.
\<close>

fun frameInputs_loop :: "float64 list \<Rightarrow> nat \<Rightarrow> nat \<Rightarrow> (Input list \<times> nat) option" where
  "frameInputs_loop floatSlice 0 i = Some ([], i)"
| "frameInputs_loop floatSlice (Suc n) i =
     (if i \<ge> length floatSlice then None
      else case frameInputs_loop floatSlice n (Suc i) of
             None \<Rightarrow> None
           | Some (frameInputs, i') \<Rightarrow> Some (\<lparr>Value = floatSlice ! i\<rparr> # frameInputs, i'))"

text \<open>\<open>sliceToMap\<close>: the loop over \<open>lfs.frames\<close>, with the map \<open>inputs\<close> and the index \<open>i\<close>.\<close>

fun sliceToMap_loop ::
  "frame list \<Rightarrow> float64 list \<Rightarrow> FrameSystemInputs \<Rightarrow> nat \<Rightarrow> error + FrameSystemInputs" where
  "sliceToMap_loop [] floatSlice inputs i = Inr inputs"
| "sliceToMap_loop (frame # rest) floatSlice inputs i =
     (if length (DoF frame) = 0 then sliceToMap_loop rest floatSlice inputs i
      else case frameInputs_loop floatSlice (length (DoF frame)) i of
             None \<Rightarrow> Inl (NotEnoughValues (name frame))
           | Some (frameInputs, i') \<Rightarrow>
               sliceToMap_loop rest floatSlice (AList.update (name frame) frameInputs inputs) i')"

definition sliceToMap :: "'fs linearizedFrameSystem \<Rightarrow> float64 list \<Rightarrow> error + FrameSystemInputs" where
  "sliceToMap lfs floatSlice = sliceToMap_loop (lfs_frames lfs) floatSlice [] 0"

section \<open>The frame system, as this package uses it\<close>

text \<open>
  The operations of \<open>referenceframe.FrameSystem\<close> and \<open>referenceframe.PoseInFrame\<close> that the
  functions below call. Their code is not among the sources, so they are parameters: \<open>'fs\<close>
  is the type of frame systems and \<open>'p\<close> the type of poses in a frame. \<open>Frame\<close> returns \<open>None\<close>
  for Go's nil; \<open>MergeFrameSystem\<close> changes its receiver in the source and returns the
  changed frame system here; \<open>WorldOf\<close> is the method \<open>World()\<close>.
\<close>

record ('fs, 'p) referenceframe =
  Frame :: "'fs \<Rightarrow> string \<Rightarrow> frame option"
  TracebackFrame :: "'fs \<Rightarrow> frame \<Rightarrow> error + frame list"
  FrameSystemSubset :: "'fs \<Rightarrow> frame \<Rightarrow> error + 'fs"
  MergeFrameSystem :: "'fs \<Rightarrow> 'fs \<Rightarrow> frame \<Rightarrow> error + 'fs"
  WorldOf :: "'fs \<Rightarrow> frame"
  NewEmptyFrameSystem :: "string \<Rightarrow> 'fs"
  Transform :: "'fs \<Rightarrow> FrameSystemInputs \<Rightarrow> 'p \<Rightarrow> string \<Rightarrow> error + 'p"
  Parent :: "'p \<Rightarrow> string"

text \<open>
  Modelled from the spec: the ancestor chain of a frame, frame \<open>\<rightarrow>\<close> parent \<open>\<rightarrow>\<close> ... \<open>\<rightarrow>\<close> root,
  which \<open>TracebackFrame\<close> of the absent frame system returns. The tree is given by its parent
  function; the root (World) is the frame without a parent. \<open>ancestorChain parent f l\<close> says
  that \<open>l\<close> is the chain of \<open>f\<close>.
\<close>

fun ancestorChain :: "(frame \<Rightarrow> frame option) \<Rightarrow> frame \<Rightarrow> frame list \<Rightarrow> bool" where
  "ancestorChain parent f [] = False"
| "ancestorChain parent f [x] = (x = f \<and> parent f = None)"
| "ancestorChain parent f (x # y # ys) =
     (x = f \<and> parent f = Some y \<and> ancestorChain parent y (y # ys))"

section \<open>Pivot search\<close>

text \<open>The first loop of \<open>findPivotFrame\<close>: the names of the shorter list, cached in a set.\<close>

fun nameSet_loop :: "frame list \<Rightarrow> string set \<Rightarrow> string set" where
  "nameSet_loop [] nameSet = nameSet"
| "nameSet_loop (frame # rest) nameSet = nameSet_loop rest (insert (name frame) nameSet)"

text \<open>The second loop: the first frame of the longer list whose name has been seen.\<close>

fun seen_loop :: "frame list \<Rightarrow> string set \<Rightarrow> error + frame" where
  "seen_loop [] nameSet = Inl NoPath"
| "seen_loop (frame # rest) nameSet =
     (if name frame \<in> nameSet then Inr frame else seen_loop rest nameSet)"

definition findPivotFrame :: "frame list \<Rightarrow> frame list \<Rightarrow> error + frame" where
  "findPivotFrame frameList1 frameList2 =
     (let (shortList, longList) =
            (if length frameList1 > length frameList2 then (frameList2, frameList1)
             else (frameList1, frameList2))
      in seen_loop longList (nameSet_loop shortList {}))"

text \<open>
  \<open>uniqInPlaceSlice\<close>: the first occurrence of every frame, in order. The source compacts
  the slice in place; the value it returns is this list.
\<close>

fun uniqInPlaceSlice_loop :: "frame list \<Rightarrow> frame set \<Rightarrow> frame list" where
  "uniqInPlaceSlice_loop [] seen = []"
| "uniqInPlaceSlice_loop (v # s) seen =
     (if v \<in> seen then uniqInPlaceSlice_loop s seen
      else v # uniqInPlaceSlice_loop s (insert v seen))"

definition uniqInPlaceSlice :: "frame list \<Rightarrow> frame list" where
  "uniqInPlaceSlice s = uniqInPlaceSlice_loop s {}"

section \<open>Motion chains\<close>

record 'fs motionChain =
  movingFS :: 'fs
  frames :: "frame list"
  solveFrameName :: string
  goalFrameName :: string
  worldRooted :: bool

text \<open>
  The loop of the closure \<open>movingFS\<close> in \<open>motionChainFromGoal\<close>, which counts \<open>i\<close> down from
  \<open>len(frameList) - 1\<close> to \<open>0\<close>: \<open>moveF_loop frameList (Suc i)\<close> looks at \<open>frameList[i]\<close>
  next, and \<open>moveF_loop frameList 0\<close> is the end of the loop with \<open>moveF\<close> still nil.
\<close>

fun moveF_loop :: "frame list \<Rightarrow> nat \<Rightarrow> frame option" where
  "moveF_loop frameList 0 = None"
| "moveF_loop frameList (Suc i) =
     (if length (DoF (frameList ! i)) \<noteq> 0 then Some (frameList ! i)
      else moveF_loop frameList i)"

definition movingFS_closure ::
  "('fs, 'p) referenceframe \<Rightarrow> 'fs \<Rightarrow> frame list \<Rightarrow> error + 'fs" where
  "movingFS_closure rf fs frameList =
     (case moveF_loop frameList (length frameList) of
        None \<Rightarrow> Inr (NewEmptyFrameSystem rf [])
      | Some moveF \<Rightarrow> FrameSystemSubset rf fs moveF)"

text \<open>
  The two loops of the branch for a pivot other than World, over the solve list and over
  the goal list: the state is \<open>dof\<close>, \<open>frames\<close> (here \<open>spanned\<close>) and the moving list of
  that side, and the loop breaks at the pivot.
\<close>

fun span_loop ::
  "frame \<Rightarrow> frame list \<Rightarrow> nat \<times> frame list \<times> frame list \<Rightarrow> nat \<times> frame list \<times> frame list" where
  "span_loop pivotFrame [] st = st"
| "span_loop pivotFrame (frame # rest) (dof, spanned, movingList) =
     (if frame = pivotFrame then (dof, spanned, movingList)
      else span_loop pivotFrame rest
             (dof + length (DoF frame), spanned @ [frame], movingList @ [frame]))"

text \<open>
  \<open>motionChainFromGoal\<close>. The parameter \<open>goalFrameName\<close> of the source is \<open>goalName\<close> here, the
  name \<open>goalFrameName\<close> being the field of the chain.
\<close>

definition motionChainFromGoal ::
  "('fs, 'p) referenceframe \<Rightarrow> 'fs \<Rightarrow> string \<Rightarrow> string \<Rightarrow> error + 'fs motionChain" where
  "motionChainFromGoal rf fs moveFrame goalName =
     (case Frame rf fs goalName of
        None \<Rightarrow> Inl (FrameMissing goalName)
      | Some goalFrame \<Rightarrow>
     (case TracebackFrame rf fs goalFrame of
        Inl e \<Rightarrow> Inl e
      | Inr goalFrameList \<Rightarrow>
     (case Frame rf fs moveFrame of
        None \<Rightarrow> Inl (FrameMissing moveFrame)
      | Some solveFrame \<Rightarrow>
     (case TracebackFrame rf fs solveFrame of
        Inl e \<Rightarrow> Inl e
      | Inr solveFrameList \<Rightarrow>
     if length solveFrameList = 0 then Inl SolveFrameListEmpty
     else
     (case findPivotFrame solveFrameList goalFrameList of
        Inl e \<Rightarrow> Inl e
      | Inr pivotFrame \<Rightarrow>
     if name pivotFrame = World then
       (case movingFS_closure rf fs solveFrameList of
          Inl e \<Rightarrow> Inl e
        | Inr moving \<Rightarrow>
       (case movingFS_closure rf fs goalFrameList of
          Inl e \<Rightarrow> Inl e
        | Inr movingSubset2 \<Rightarrow>
       (case MergeFrameSystem rf moving movingSubset2 (WorldOf rf moving) of
          Inl e \<Rightarrow> Inl e
        | Inr merged \<Rightarrow>
            Inr \<lparr>movingFS = merged,
                 frames = uniqInPlaceSlice (solveFrameList @ goalFrameList),
                 solveFrameName = name solveFrame,
                 goalFrameName = name goalFrame,
                 worldRooted = False\<rparr>)))
     else
       (case span_loop pivotFrame solveFrameList (0, [], []) of
          (dof1, frames1, solveMovingList) \<Rightarrow>
       (case span_loop pivotFrame goalFrameList (dof1, frames1, []) of
          (dof, frames2, goalMovingList) \<Rightarrow>
       if dof = 0 then
         (case movingFS_closure rf fs solveFrameList of
            Inl e \<Rightarrow> Inl e
          | Inr moving \<Rightarrow>
              Inr \<lparr>movingFS = moving,
                   frames = solveFrameList,
                   solveFrameName = name solveFrame,
                   goalFrameName = name goalFrame,
                   worldRooted = True\<rparr>)
       else
         (case movingFS_closure rf fs solveMovingList of
            Inl e \<Rightarrow> Inl e
          | Inr moving \<Rightarrow>
         (case movingFS_closure rf fs goalMovingList of
            Inl e \<Rightarrow> Inl e
          | Inr movingSubset2 \<Rightarrow>
         (case MergeFrameSystem rf moving movingSubset2 (WorldOf rf moving) of
            Inl e \<Rightarrow> Inl e
          | Inr merged \<Rightarrow>
              Inr \<lparr>movingFS = merged,
                   frames = frames2,
                   solveFrameName = name solveFrame,
                   goalFrameName = name goalFrame,
                   worldRooted = False\<rparr>))))))))))"

section \<open>The aggregate of motion chains\<close>

text \<open>
  Modelled from the spec: the goal specification, a mapping of frame names to target poses and
  a mapping of frame names to target configurations (\<open>PlanState\<close>, whose declaration is not
  among the sources; the functions here read its fields \<open>poses\<close> and \<open>configuration\<close>). The
  pose map may be nil, which \<open>translateGoalsToWorldPosition\<close> tests; whether the
  configuration map is nil or empty makes no difference to any function here.
\<close>

record 'p PlanState =
  poses :: "(string \<times> 'p) list option"
  configuration :: FrameSystemInputs

record 'fs motionChains =
  inner :: "'fs motionChain list"
  useTPspace :: bool
  ptgFrameName :: string

text \<open>
  The loop of \<open>motionChainsFromPlanState\<close> over the pose goals; \<open>built\<close> is the slice \<open>inner\<close>
  so far.
\<close>

fun poses_loop ::
  "('fs, 'p) referenceframe \<Rightarrow> 'fs \<Rightarrow> (string \<times> 'p) list \<Rightarrow> 'fs motionChain list \<Rightarrow>
   error + 'fs motionChain list" where
  "poses_loop rf fs [] built = Inr built"
| "poses_loop rf fs ((frame, pif) # rest) built =
     (case motionChainFromGoal rf fs frame (Parent rf pif) of
        Inl e \<Rightarrow> Inl e
      | Inr chain \<Rightarrow> poses_loop rf fs rest (built @ [chain]))"

text \<open>The loop over the configuration goals: the frame is its own goal frame.\<close>

fun configuration_loop ::
  "('fs, 'p) referenceframe \<Rightarrow> 'fs \<Rightarrow> FrameSystemInputs \<Rightarrow> 'fs motionChain list \<Rightarrow>
   error + 'fs motionChain list" where
  "configuration_loop rf fs [] built = Inr built"
| "configuration_loop rf fs ((frame, q) # rest) built =
     (case motionChainFromGoal rf fs frame frame of
        Inl e \<Rightarrow> Inl e
      | Inr chain \<Rightarrow> configuration_loop rf fs rest (built @ [chain]))"

text \<open>
  The inner loop of the scan for PTG frames, over the frames of one chain. \<open>n\<close> is
  \<open>len(inner)\<close>; the state is \<open>useTPspace\<close>, \<open>ptgFrameName\<close> and the chain, whose
  \<open>worldRooted\<close> the loop sets.
\<close>

fun ptgFrames_loop ::
  "nat \<Rightarrow> frame list \<Rightarrow> bool \<times> string \<times> 'fs motionChain \<Rightarrow>
   error + bool \<times> string \<times> 'fs motionChain" where
  "ptgFrames_loop n [] st = Inr st"
| "ptgFrames_loop n (movingFrame # rest) (useTP, ptgName, chain) =
     (if isPTG movingFrame then
        (if useTP then Inl OnlyOnePTGFrame
         else if n > 1 then Inl MixedFrameTypes
         else ptgFrames_loop n rest (True, name movingFrame, chain\<lparr>worldRooted := True\<rparr>))
      else if length (DoF movingFrame) > 0 then
        (if useTP then Inl MixedFrameTypes
         else ptgFrames_loop n rest (useTP, ptgName, chain))
      else ptgFrames_loop n rest (useTP, ptgName, chain))"

text \<open>
  The outer loop, over the chains of \<open>inner\<close>: \<open>scanned\<close> are the chains already visited,
  as the loop has left them.
\<close>

fun ptgChains_loop ::
  "nat \<Rightarrow> 'fs motionChain list \<Rightarrow> bool \<times> string \<times> 'fs motionChain list \<Rightarrow>
   error + bool \<times> string \<times> 'fs motionChain list" where
  "ptgChains_loop n [] st = Inr st"
| "ptgChains_loop n (chain # rest) (useTP, ptgName, scanned) =
     (case ptgFrames_loop n (frames chain) (useTP, ptgName, chain) of
        Inl e \<Rightarrow> Inl e
      | Inr (useTP', ptgName', chain') \<Rightarrow>
          ptgChains_loop n rest (useTP', ptgName', scanned @ [chain']))"

text \<open>The two loops that fill \<open>inner\<close>, one after the other.\<close>

definition buildChains ::
  "('fs, 'p) referenceframe \<Rightarrow> 'fs \<Rightarrow> 'p PlanState \<Rightarrow> error + 'fs motionChain list" where
  "buildChains rf fs to =
     (case poses_loop rf fs (case poses to of None \<Rightarrow> [] | Some ps \<Rightarrow> ps) [] of
        Inl e \<Rightarrow> Inl e
      | Inr built \<Rightarrow> configuration_loop rf fs (configuration to) built)"

definition motionChainsFromPlanState ::
  "('fs, 'p) referenceframe \<Rightarrow> 'fs \<Rightarrow> 'p PlanState \<Rightarrow> error + 'fs motionChains" where
  "motionChainsFromPlanState rf fs to =
     (case buildChains rf fs to of
        Inl e \<Rightarrow> Inl e
      | Inr built \<Rightarrow>
          if length built < 1 then Inl NoMotionChain
          else
            (case ptgChains_loop (length built) built (False, [], []) of
               Inl e \<Rightarrow> Inl e
             | Inr (useTP, ptgName, scanned') \<Rightarrow>
                 Inr \<lparr>inner = scanned', useTPspace = useTP, ptgFrameName = ptgName\<rparr>))"

text \<open>
  \<open>geometries\<close>. The inner loop over the chains asks whether some chain's moving frame
  system has a frame of the given name.
\<close>

fun inMovingFS :: "('fs, 'p) referenceframe \<Rightarrow> 'fs motionChain list \<Rightarrow> string \<Rightarrow> bool" where
  "inMovingFS rf [] n = False"
| "inMovingFS rf (chain # rest) n =
     (if Frame rf (movingFS chain) n \<noteq> None then True else inMovingFS rf rest n)"

text \<open>
  The outer loop over \<open>frameSystemGeometries\<close>, a map from frame names to the geometries of
  the frame (\<open>'g\<close> is the type of a geometry). The state is the pair of result lists.
  \<open>fs.Frame(name).DoF()\<close> panics when the frame system has no frame of that name.
\<close>

fun geometries_loop ::
  "('fs, 'p) referenceframe \<Rightarrow> 'fs motionChains \<Rightarrow> 'fs \<Rightarrow> (string \<times> 'g list) list \<Rightarrow>
   'g list \<times> 'g list \<Rightarrow> error + 'g list \<times> 'g list" where
  "geometries_loop rf mC fs [] st = Inr st"
| "geometries_loop rf mC fs ((n, geoms) # rest) (movingRobotGeometries, staticRobotGeometries) =
     (if inMovingFS rf (inner mC) n
      then geometries_loop rf mC fs rest (movingRobotGeometries @ geoms, staticRobotGeometries)
      else
        (case Frame rf fs n of
           None \<Rightarrow> Inl NilDereference
         | Some f \<Rightarrow>
             if length (DoF f) > 0
             then geometries_loop rf mC fs rest (movingRobotGeometries @ geoms, staticRobotGeometries)
             else geometries_loop rf mC fs rest (movingRobotGeometries, staticRobotGeometries @ geoms)))"

definition geometries ::
  "('fs, 'p) referenceframe \<Rightarrow> 'fs motionChains \<Rightarrow> 'fs \<Rightarrow> (string \<times> 'g list) list \<Rightarrow>
   error + 'g list \<times> 'g list" where
  "geometries rf mC fs frameSystemGeometries =
     geometries_loop rf mC fs frameSystemGeometries ([], [])"

text \<open>
  \<open>translateGoalsToWorldPosition\<close>: the loop over the chains, with the map \<open>alteredGoals\<close>,
  and the function, which returns the goal it was given when that has no pose map.
\<close>

fun alteredGoals_loop ::
  "('fs, 'p) referenceframe \<Rightarrow> 'fs \<Rightarrow> FrameSystemInputs \<Rightarrow> (string \<times> 'p) list \<Rightarrow>
   'fs motionChain list \<Rightarrow> (string \<times> 'p) list \<Rightarrow> error + (string \<times> 'p) list" where
  "alteredGoals_loop rf fs start goalPoses [] alteredGoals = Inr alteredGoals"
| "alteredGoals_loop rf fs start goalPoses (chain # rest) alteredGoals =
     (case map_of goalPoses (solveFrameName chain) of
        None \<Rightarrow> alteredGoals_loop rf fs start goalPoses rest alteredGoals
      | Some goalPif \<Rightarrow>
          if worldRooted chain then
            (case Transform rf fs start goalPif World of
               Inl e \<Rightarrow> Inl e
             | Inr tf \<Rightarrow>
                 alteredGoals_loop rf fs start goalPoses rest
                   (AList.update (solveFrameName chain) tf alteredGoals))
          else
            alteredGoals_loop rf fs start goalPoses rest
              (AList.update (solveFrameName chain) goalPif alteredGoals))"

definition translateGoalsToWorldPosition ::
  "('fs, 'p) referenceframe \<Rightarrow> 'fs motionChains \<Rightarrow> 'fs \<Rightarrow> FrameSystemInputs \<Rightarrow> 'p PlanState \<Rightarrow>
   error + 'p PlanState" where
  "translateGoalsToWorldPosition rf mC fs start goal =
     (case poses goal of
        Some goalPoses \<Rightarrow>
          (case alteredGoals_loop rf fs start goalPoses (inner mC) [] of
             Inl e \<Rightarrow> Inl e
           | Inr alteredGoals \<Rightarrow>
               Inr \<lparr>poses = Some alteredGoals, configuration = configuration goal\<rparr>)
      | None \<Rightarrow> Inr goal)"

section \<open>The result promise\<close>

text \<open>
  Modelled from the spec: what the search writes into the one-shot slot, a sequence of nodes
  and an error (\<open>rrtSolution\<close>, whose declaration is not among the sources; \<open>result\<close> reads
  its fields \<open>steps\<close> and \<open>err\<close>, here \<open>sol_steps\<close> and \<open>sol_err\<close>). \<open>'n\<close> is the type of a node.
\<close>

record 'n rrtSolution =
  sol_steps :: "'n list"
  sol_err :: "error option"

text \<open>
  \<open>resultPromise\<close>. \<open>steps\<close> is a slice that may be nil. \<open>future\<close> is the channel: \<open>Some s\<close>
  when the solution \<open>s\<close> is there to be received, \<open>None\<close> when nothing is ever sent.
\<close>

record 'n resultPromise =
  steps :: "'n list option"
  future :: "'n rrtSolution option"

text \<open>
  \<open>result\<close> returns what the caller gets, \<open>None\<close> when the receive never returns, and the
  promise as the call leaves it: a receive takes the solution out of the channel.
\<close>

definition result ::
  "'n resultPromise \<Rightarrow> (error + 'n list) option \<times> 'n resultPromise" where
  "result r =
     (if steps r \<noteq> None \<and> length (the (steps r)) > 0 then (Some (Inr (the (steps r))), r)
      else
        (case future r of
           None \<Rightarrow> (None, r)
         | Some planReturn \<Rightarrow>
             (case sol_err planReturn of
                Some e \<Rightarrow> (Some (Inl e), r\<lparr>future := None\<rparr>)
              | None \<Rightarrow> (Some (Inr (sol_steps planReturn)), r\<lparr>future := None\<rparr>))))"

section \<open>Notions of the statements\<close>

text \<open>
  The names of the frames of an ordering that have degrees of freedom; the vector that
  flattening a mapping \<open>x\<close> along an ordering gives; and the condition that \<open>x\<close> has, for every
  such frame, an entry with as many values as the frame has degrees of freedom.
\<close>

definition movingNames :: "frame list \<Rightarrow> string set" where
  "movingNames fl = name ` {f \<in> set fl. DoF f \<noteq> []}"

fun flatValues :: "frame list \<Rightarrow> FrameSystemInputs \<Rightarrow> float64 list" where
  "flatValues [] x = []"
| "flatValues (f # fl) x =
     (if DoF f = [] then flatValues fl x
      else map Value (the (map_of x (name f))) @ flatValues fl x)"

definition wellSized :: "frame list \<Rightarrow> FrameSystemInputs \<Rightarrow> bool" where
  "wellSized fl x =
     list_all (\<lambda>f. DoF f = [] \<or>
                   (case map_of x (name f) of
                      None \<Rightarrow> False
                    | Some v \<Rightarrow> length v = length (DoF f))) fl"

text \<open>
  The degrees of freedom of the frames of a chain that come before the pivot: from the leaf
  (the first frame of the list, which counts) up to the pivot (which does not).
\<close>

definition dofBelow :: "frame \<Rightarrow> frame list \<Rightarrow> nat" where
  "dofBelow pivotFrame frameList =
     sum_list (map (\<lambda>f. length (DoF f)) (takeWhile (\<lambda>f. f \<noteq> pivotFrame) frameList))"

text \<open>
  The first-moving-frame rule as the spec words it, for comparison with \<open>movingFS_closure\<close>:
  scanning from the leaf, that is from the front of the list, the first frame with degrees of
  freedom is the root of the moving subsystem.
\<close>

definition movingFS_leafFirst ::
  "('fs, 'p) referenceframe \<Rightarrow> 'fs \<Rightarrow> frame list \<Rightarrow> error + 'fs" where
  "movingFS_leafFirst rf fs frameList =
     (case find (\<lambda>f. length (DoF f) \<noteq> 0) frameList of
        None \<Rightarrow> Inr (NewEmptyFrameSystem rf [])
      | Some moveF \<Rightarrow> FrameSystemSubset rf fs moveF)"

text \<open>
  A frame name is classified as moving when some chain's moving frame system has a frame of
  that name, or when the frame of that name in the whole frame system has degrees of freedom.
\<close>

definition classifiedMoving ::
  "('fs, 'p) referenceframe \<Rightarrow> 'fs motionChains \<Rightarrow> 'fs \<Rightarrow> string \<Rightarrow> bool" where
  "classifiedMoving rf mC fs n =
     ((\<exists>c \<in> set (inner mC). Frame rf (movingFS c) n \<noteq> None) \<or>
      (case Frame rf fs n of None \<Rightarrow> False | Some f \<Rightarrow> DoF f \<noteq> []))"

section \<open>A frame system for the examples\<close>

text \<open>
  \<open>exFrame a n d p\<close> is the frame object \<open>a\<close> with the name \<open>n\<close>, \<open>d\<close> degrees of freedom
  and, when \<open>p\<close> holds, the PTG capability.
\<close>

definition exFrame :: "nat \<Rightarrow> string \<Rightarrow> nat \<Rightarrow> bool \<Rightarrow> frame" where
  "exFrame a n d p =
     \<lparr>addr = a, name = n, DoF = replicate d \<lparr>Min_limit = -1, Max_limit = 1\<rparr>, isPTG = p\<rparr>"

text \<open>
  A tree given by its parent function: gripper and camera are mounted on the arm, the arm on
  the base, the base on the world frame.
\<close>

definition exParent :: "frame \<Rightarrow> frame option" where
  "exParent f =
     map_of [(''gripper'', exFrame 3 ''arm'' 6 False), (''camera'', exFrame 3 ''arm'' 6 False),
             (''arm'', exFrame 2 ''base'' 0 False), (''base'', exFrame 1 ''world'' 0 False)]
       (name f)"

text \<open>
  An implementation of the frame system operations that is small enough to evaluate, for the
  examples only. A frame system is the list of its frames, each with the name of its parent;
  the world frame belongs to every frame system. A pose in a frame is the name of the frame
  and a number; transforming it to another frame adds the number of steps up the tree.
\<close>

type_synonym exFS = "(frame \<times> string) list"

type_synonym exPose = "string \<times> int"

definition exWorld :: frame where
  "exWorld = exFrame 0 World 0 False"

definition exLookup :: "exFS \<Rightarrow> string \<Rightarrow> frame option" where
  "exLookup fs n =
     (if n = World then Some exWorld else map_option fst (find (\<lambda>(g, par). name g = n) fs))"

fun exTraceback_fuel :: "nat \<Rightarrow> exFS \<Rightarrow> frame \<Rightarrow> error + frame list" where
  "exTraceback_fuel 0 fs f = Inl (Collaborator ''cycle'')"
| "exTraceback_fuel (Suc k) fs f =
     (if name f = World then Inr [f]
      else case find (\<lambda>(g, par). name g = name f) fs of
             None \<Rightarrow> Inl (FrameMissing (name f))
           | Some (g, par) \<Rightarrow>
               (case exLookup fs par of
                  None \<Rightarrow> Inl (FrameMissing par)
                | Some pf \<Rightarrow>
                    (case exTraceback_fuel k fs pf of
                       Inl e \<Rightarrow> Inl e
                     | Inr l \<Rightarrow> Inr (f # l))))"

definition exTraceback :: "exFS \<Rightarrow> frame \<Rightarrow> error + frame list" where
  "exTraceback fs f = exTraceback_fuel (Suc (length fs)) fs f"

definition exSubset :: "exFS \<Rightarrow> frame \<Rightarrow> error + exFS" where
  "exSubset fs newRoot =
     (if exLookup fs (name newRoot) = None then Inl (FrameMissing (name newRoot))
      else Inr (map (\<lambda>(g, par). if g = newRoot then (g, World) else (g, par))
                 (filter (\<lambda>(g, par). case exTraceback fs g of Inl e \<Rightarrow> False
                                        | Inr l \<Rightarrow> newRoot \<in> set l) fs)))"

definition exMerge :: "exFS \<Rightarrow> exFS \<Rightarrow> frame \<Rightarrow> error + exFS" where
  "exMerge fs other attachTo =
     (if exLookup fs (name attachTo) = None then Inl (FrameMissing (name attachTo))
      else if \<exists>(g, par) \<in> set other. exLookup fs (name g) \<noteq> None
           then Inl (Collaborator ''frame already in frame system'')
      else Inr (fs @ map (\<lambda>(g, par). if par = World then (g, name attachTo) else (g, par)) other))"

definition exTransform :: "exFS \<Rightarrow> FrameSystemInputs \<Rightarrow> exPose \<Rightarrow> string \<Rightarrow> error + exPose" where
  "exTransform fs start pif dst =
     (case exLookup fs (fst pif) of
        None \<Rightarrow> Inl (FrameMissing (fst pif))
      | Some f \<Rightarrow>
          (case exTraceback fs f of
             Inl e \<Rightarrow> Inl e
           | Inr l \<Rightarrow> Inr (dst, snd pif + int (length (takeWhile (\<lambda>g. name g \<noteq> dst) l)))))"

definition exRf :: "(exFS, exPose) referenceframe" where
  "exRf = \<lparr>Frame = exLookup, TracebackFrame = exTraceback, FrameSystemSubset = exSubset,
           MergeFrameSystem = exMerge, WorldOf = (\<lambda>fs. exWorld),
           NewEmptyFrameSystem = (\<lambda>n. []), Transform = exTransform, Parent = fst\<rparr>"

text \<open>
  A robot: an arm with two joints on a fixed base, a gripper with one joint on the arm and a
  camera fixed to the gripper. A truck: a base and a trailer, both PTG frames, with a lidar
  fixed to the base. And a rover, a PTG frame, that hangs from a gantry with one joint.
\<close>

definition exRobot :: exFS where
  "exRobot = [(exFrame 1 ''base'' 0 False, World), (exFrame 2 ''arm'' 2 False, ''base''),
              (exFrame 3 ''gripper'' 1 False, ''arm''), (exFrame 4 ''camera'' 0 False, ''gripper'')]"

definition exTruck :: exFS where
  "exTruck = [(exFrame 1 ''base'' 2 True, World), (exFrame 2 ''trailer'' 2 True, ''base''),
              (exFrame 3 ''lidar'' 0 False, ''base'')]"

definition exGantry :: exFS where
  "exGantry = [(exFrame 1 ''gantry'' 1 False, World), (exFrame 2 ''rover'' 2 True, ''gantry'')]"

text \<open>
  The aggregate with the one chain of the goal "gripper, in the frame of the camera"; a goal
  that names the gripper both among the poses and among the configurations; and the
  aggregate of that goal.
\<close>

definition exChains :: "exFS motionChains" where
  "exChains =
     \<lparr>inner = [\<lparr>movingFS = [(exFrame 2 ''arm'' 2 False, World), (exFrame 3 ''gripper'' 1 False, ''arm''),
                             (exFrame 4 ''camera'' 0 False, ''gripper'')],
                 frames = [exFrame 3 ''gripper'' 1 False, exFrame 2 ''arm'' 2 False,
                           exFrame 1 ''base'' 0 False, exWorld],
                 solveFrameName = ''gripper'', goalFrameName = ''camera'', worldRooted = True\<rparr>],
      useTPspace = False, ptgFrameName = []\<rparr>"

definition exGoal :: "exPose PlanState" where
  "exGoal = \<lparr>poses = Some [(''gripper'', (''base'', 0))],
             configuration = [(''gripper'', [\<lparr>Value = 0\<rparr>])]\<rparr>"

definition exTwoChains :: "exFS motionChains" where
  "exTwoChains =
     \<lparr>inner = [\<lparr>movingFS = [(exFrame 2 ''arm'' 2 False, World), (exFrame 3 ''gripper'' 1 False, ''arm''),
                             (exFrame 4 ''camera'' 0 False, ''gripper'')],
                 frames = [exFrame 3 ''gripper'' 1 False, exFrame 2 ''arm'' 2 False],
                 solveFrameName = ''gripper'', goalFrameName = ''base'', worldRooted = False\<rparr>,
                \<lparr>movingFS = [(exFrame 2 ''arm'' 2 False, World), (exFrame 3 ''gripper'' 1 False, ''arm''),
                             (exFrame 4 ''camera'' 0 False, ''gripper'')],
                 frames = [exFrame 3 ''gripper'' 1 False, exFrame 2 ''arm'' 2 False,
                           exFrame 1 ''base'' 0 False, exWorld],
                 solveFrameName = ''gripper'', goalFrameName = ''gripper'', worldRooted = True\<rparr>],
      useTPspace = False, ptgFrameName = []\<rparr>"

text \<open>
  A goal with two pose goals, the gripper in the frame of the camera and the arm in the frame
  of the base, and the aggregate of that goal: the chain of the gripper is world-rooted, the
  chain of the arm is not. And the same goal with the pose of the gripper in a frame that the
  robot does not have.
\<close>

definition exPairGoal :: "exPose PlanState" where
  "exPairGoal = \<lparr>poses = Some [(''gripper'', (''camera'', 5)), (''arm'', (''base'', 2))],
                 configuration = []\<rparr>"

definition exBadGoal :: "exPose PlanState" where
  "exBadGoal = \<lparr>poses = Some [(''gripper'', (''nowhere'', 0)), (''arm'', (''base'', 2))],
                configuration = []\<rparr>"

definition exPairChains :: "exFS motionChains" where
  "exPairChains =
     \<lparr>inner = [\<lparr>movingFS = [(exFrame 2 ''arm'' 2 False, World), (exFrame 3 ''gripper'' 1 False, ''arm''),
                             (exFrame 4 ''camera'' 0 False, ''gripper'')],
                 frames = [exFrame 3 ''gripper'' 1 False, exFrame 2 ''arm'' 2 False,
                           exFrame 1 ''base'' 0 False, exWorld],
                 solveFrameName = ''gripper'', goalFrameName = ''camera'', worldRooted = True\<rparr>,
                \<lparr>movingFS = [(exFrame 2 ''arm'' 2 False, World), (exFrame 3 ''gripper'' 1 False, ''arm''),
                             (exFrame 4 ''camera'' 0 False, ''gripper'')],
                 frames = [exFrame 2 ''arm'' 2 False],
                 solveFrameName = ''arm'', goalFrameName = ''base'', worldRooted = False\<rparr>],
      useTPspace = False, ptgFrameName = []\<rparr>"

lemmas ex_defs = exRf_def exSubset_def exMerge_def exLookup_def exTraceback_def exWorld_def
  World_def exFrame_def exTransform_def

lemma exFrame_simps [simp]:
  "addr (exFrame a n d p) = a"
  "name (exFrame a n d p) = n"
  "DoF (exFrame a n d p) = replicate d \<lparr>Min_limit = -1, Max_limit = 1\<rparr>"
  "isPTG (exFrame a n d p) = p"
  by (simp_all add: exFrame_def)

lemma image_name_filter:
  "name ` {f \<in> set fl. P f} = set (map name (filter P fl))"
  by auto

section \<open>Flattening and unflattening\<close>

lemma frameInputs_loop_eq:
  "frameInputs_loop floatSlice n i =
     (if n = 0 \<or> i + n \<le> length floatSlice
      then Some (map (\<lambda>v. \<lparr>Value = v\<rparr>) (take n (drop i floatSlice)), i + n) else None)"
proof (induction n arbitrary: i)
  case 0
  show ?case by simp
next
  case (Suc n)
  show ?case
  proof (cases "i \<ge> length floatSlice")
    case True
    then show ?thesis by simp
  next
    case False
    then have lt: "i < length floatSlice" by simp
    have tk: "take (Suc n) (drop i floatSlice) = floatSlice ! i # take n (drop (Suc i) floatSlice)"
      using lt by (simp add: Cons_nth_drop_Suc [symmetric])
    show ?thesis using lt by (auto simp add: Suc.IH tk)
  qed
qed

lemma mapToSlice_loop_flat:
  "wellSized fl x \<Longrightarrow> mapToSlice_loop fl x acc = Inr (acc @ flatValues fl x)"
  by (induction fl arbitrary: acc) (auto simp: wellSized_def split: option.splits)

lemma sliceToMap_loop_flat:
  "wellSized fl x \<Longrightarrow>
   \<exists>m'. sliceToMap_loop fl (pre @ flatValues fl x @ post) m (length pre) = Inr m' \<and>
        (\<forall>n. map_of m' n = (if n \<in> movingNames fl then map_of x n else map_of m n))"
proof (induction fl arbitrary: pre m)
  case Nil
  then show ?case by (simp add: movingNames_def)
next
  case (Cons f fl)
  show ?case
  proof (cases "DoF f = []")
    case True
    with Cons.prems have "wellSized fl x" by (simp add: wellSized_def)
    from Cons.IH [OF this, of pre m] True show ?thesis
      by (auto simp: movingNames_def)
  next
    case False
    with Cons.prems obtain v where v: "map_of x (name f) = Some v" "length v = length (DoF f)"
      and ws: "wellSized fl x"
      by (auto simp: wellSized_def split: option.splits)
    let ?s = "pre @ flatValues (f # fl) x @ post"
    have fl: "flatValues (f # fl) x = map Value v @ flatValues fl x"
      using False v by simp
    have tk: "take (length (DoF f)) (drop (length pre) ?s) = map Value v"
      using v by (simp add: fl del: flatValues.simps)
    have le: "length pre + length (DoF f) \<le> length ?s"
      using v by (simp add: fl del: flatValues.simps)
    have fi: "frameInputs_loop ?s (length (DoF f)) (length pre) = Some (v, length pre + length (DoF f))"
      using le tk by (simp add: frameInputs_loop_eq map_idI o_def del: flatValues.simps)
    have s: "?s = (pre @ map Value v) @ flatValues fl x @ post" by (simp add: fl del: flatValues.simps)
    from Cons.IH [OF ws, of "pre @ map Value v" "AList.update (name f) v m"]
    obtain m' where m': "sliceToMap_loop fl ((pre @ map Value v) @ flatValues fl x @ post)
            (AList.update (name f) v m) (length (pre @ map Value v)) = Inr m'"
        "\<forall>n. map_of m' n = (if n \<in> movingNames fl then map_of x n else map_of (AList.update (name f) v m) n)"
      by blast
    have "sliceToMap_loop (f # fl) ?s m (length pre) = Inr m'"
      using False fi m'(1) v(2) unfolding s by simp
    moreover have "\<forall>n. map_of m' n = (if n \<in> movingNames (f # fl) then map_of x n else map_of m n)"
      using m'(2) False v(1) by (auto simp: movingNames_def update_conv')
    ultimately show ?thesis by blast
  qed
qed

lemma sliceToMap_loop_keys:
  "sliceToMap_loop fl s m i = Inr m' \<Longrightarrow>
     fst ` set m' = fst ` set m \<union> movingNames fl \<and> (distinct (map fst m) \<longrightarrow> distinct (map fst m'))"
proof (induction fl arbitrary: m i)
  case Nil
  then show ?case by (simp add: movingNames_def)
next
  case (Cons f fl)
  show ?case
  proof (cases "DoF f = []")
    case True
    with Cons.prems have "sliceToMap_loop fl s m i = Inr m'" by simp
    from Cons.IH [OF this] True show ?thesis by (auto simp: movingNames_def)
  next
    case False
    with Cons.prems obtain fi i' where
      "sliceToMap_loop fl s (AList.update (name f) fi m) i' = Inr m'"
      by (auto split: option.splits)
    from Cons.IH [OF this] False show ?thesis
      by (auto simp: movingNames_def dom_update distinct_update)
  qed
qed

text \<open>
  Claim C2. Let the configuration mapping \<open>x\<close> have, for every frame of the fixed ordering
  with degrees of freedom, an entry with as many values as the frame has degrees of freedom.
  Then \<open>mapToSlice\<close> succeeds, \<open>sliceToMap\<close> succeeds on its result, and the mapping that comes
  back has, for each such frame, the entry \<open>x\<close> has. Its keys are the names of those frames
  and no others, so it is \<open>x\<close> itself, as a map, whenever \<open>x\<close> has no further keys.
\<close>

theorem mapToSlice_sliceToMap_identity:
  assumes "\<forall>f \<in> set (lfs_frames lfs). DoF f \<noteq> [] \<longrightarrow>
             (\<exists>v. map_of x (name f) = Some v \<and> length v = length (DoF f))"
  shows "\<exists>s m. mapToSlice lfs x = Inr s \<and> sliceToMap lfs s = Inr m \<and>
           (\<forall>f \<in> set (lfs_frames lfs). DoF f \<noteq> [] \<longrightarrow> map_of m (name f) = map_of x (name f)) \<and>
           dom (map_of m) = name ` {f \<in> set (lfs_frames lfs). DoF f \<noteq> []} \<and>
           (dom (map_of x) = name ` {f \<in> set (lfs_frames lfs). DoF f \<noteq> []} \<longrightarrow>
              map_of m = map_of x)"
proof -
  let ?fl = "lfs_frames lfs"
  have ws: "wellSized ?fl x"
    using assms by (auto simp: wellSized_def list_all_iff)
  have flat: "mapToSlice lfs x = Inr (flatValues ?fl x)"
    using mapToSlice_loop_flat [OF ws, of "[]"] by (simp add: mapToSlice_def)
  from sliceToMap_loop_flat [OF ws, of "[]" "[]" "[]"]
  obtain m where m: "sliceToMap lfs (flatValues ?fl x) = Inr m"
    and look: "\<And>n. map_of m n = (if n \<in> movingNames ?fl then map_of x n else None)"
    by (auto simp: sliceToMap_def)
  have present: "n \<in> movingNames ?fl \<Longrightarrow> map_of x n \<noteq> None" for n
    using assms by (auto simp: movingNames_def)
  have keys: "dom (map_of m) = movingNames ?fl"
    using present by (auto simp: look dom_def)
  have same: "\<forall>f \<in> set ?fl. DoF f \<noteq> [] \<longrightarrow> map_of m (name f) = map_of x (name f)"
    by (auto simp: look movingNames_def)
  have all: "dom (map_of x) = movingNames ?fl \<longrightarrow> map_of m = map_of x"
  proof
    assume d: "dom (map_of x) = movingNames ?fl"
    show "map_of m = map_of x"
    proof
      fix n
      show "map_of m n = map_of x n"
      proof (cases "n \<in> movingNames ?fl")
        case True
        then show ?thesis by (simp add: look)
      next
        case False
        with d have "map_of x n = None" by (metis domIff)
        with False show ?thesis by (simp add: look)
      qed
    qed
  qed
  from flat m same keys all show ?thesis
    unfolding movingNames_def by blast
qed

theorem mapToSlice_sliceToMap_identity_witness:
  "\<exists>s m. mapToSlice \<lparr>lfs_fs = (), lfs_frames = [exFrame 1 ''base'' 0 False, exFrame 2 ''arm'' 2 False, exFrame 3 ''gripper'' 1 False], lfs_dof = []\<rparr>
           [(''arm'', [\<lparr>Value = 1\<rparr>, \<lparr>Value = 2\<rparr>]), (''gripper'', [\<lparr>Value = 3\<rparr>])] = Inr s \<and>
         sliceToMap \<lparr>lfs_fs = (), lfs_frames = [exFrame 1 ''base'' 0 False, exFrame 2 ''arm'' 2 False, exFrame 3 ''gripper'' 1 False], lfs_dof = []\<rparr> s = Inr m \<and>
         map_of m ''arm'' = Some [\<lparr>Value = 1\<rparr>, \<lparr>Value = 2\<rparr>] \<and>
         map_of m ''gripper'' = Some [\<lparr>Value = 3\<rparr>] \<and>
         dom (map_of m) = {''arm'', ''gripper''}"
proof -
  let ?L = "\<lparr>lfs_fs = (), lfs_frames = [exFrame 1 ''base'' 0 False, exFrame 2 ''arm'' 2 False, exFrame 3 ''gripper'' 1 False], lfs_dof = []\<rparr>"
  let ?X = "[(''arm'', [\<lparr>Value = 1\<rparr>, \<lparr>Value = 2\<rparr>]), (''gripper'', [\<lparr>Value = 3\<rparr>])]"
  have h: "\<forall>f \<in> set (lfs_frames ?L). DoF f \<noteq> [] \<longrightarrow>
             (\<exists>v. map_of ?X (name f) = Some v \<and> length v = length (DoF f))"
    by simp
  from mapToSlice_sliceToMap_identity [OF h]
  obtain s m where r: "mapToSlice ?L ?X = Inr s" "sliceToMap ?L s = Inr m"
     "\<forall>f \<in> set (lfs_frames ?L). DoF f \<noteq> [] \<longrightarrow> map_of m (name f) = map_of ?X (name f)"
     "dom (map_of m) = name ` {f \<in> set (lfs_frames ?L). DoF f \<noteq> []}"
    by blast
  have "map_of m ''arm'' = Some [\<lparr>Value = 1\<rparr>, \<lparr>Value = 2\<rparr>]"
    "map_of m ''gripper'' = Some [\<lparr>Value = 3\<rparr>]"
    using r(3) by simp_all
  moreover have "dom (map_of m) = {''arm'', ''gripper''}"
    unfolding r(4) image_name_filter by auto
  ultimately show ?thesis using r(1,2) by blast
qed

text \<open>
  Claim C10. Whenever \<open>sliceToMap\<close> succeeds, the keys of the mapping it returns are the names
  of the frames of the fixed ordering that have degrees of freedom, and nothing else: a frame
  without degrees of freedom gets no entry (each key occurs once, as in any map).
\<close>

theorem sliceToMap_keys:
  "sliceToMap lfs floatSlice = Inr m \<Longrightarrow>
     dom (map_of m) = name ` {f \<in> set (lfs_frames lfs). DoF f \<noteq> []} \<and> distinct (map fst m)"
  using sliceToMap_loop_keys [of "lfs_frames lfs" floatSlice "[]" 0 m]
  by (simp add: sliceToMap_def dom_map_of_conv_image_fst movingNames_def)

theorem sliceToMap_keys_witness:
  "sliceToMap \<lparr>lfs_fs = (), lfs_frames = [exFrame 1 ''base'' 0 False, exFrame 2 ''arm'' 2 False, exFrame 3 ''gripper'' 1 False], lfs_dof = []\<rparr> [5, 6, 7, 8]
     = Inr [(''arm'', [\<lparr>Value = 5\<rparr>, \<lparr>Value = 6\<rparr>]), (''gripper'', [\<lparr>Value = 7\<rparr>])] \<and>
   dom (map_of [(''arm'', [\<lparr>Value = 5\<rparr>, \<lparr>Value = 6::real\<rparr>]), (''gripper'', [\<lparr>Value = 7\<rparr>])]) = {''arm'', ''gripper''}"
proof -
  let ?L = "\<lparr>lfs_fs = (), lfs_frames = [exFrame 1 ''base'' 0 False, exFrame 2 ''arm'' 2 False, exFrame 3 ''gripper'' 1 False], lfs_dof = []\<rparr>"
  have run: "sliceToMap ?L [5, 6, 7, 8]
     = Inr [(''arm'', [\<lparr>Value = 5\<rparr>, \<lparr>Value = 6\<rparr>]), (''gripper'', [\<lparr>Value = 7\<rparr>])]"
    by (simp add: sliceToMap_def numeral_2_eq_2)
  from sliceToMap_keys [OF run] have "dom (map_of [(''arm'', [\<lparr>Value = 5\<rparr>, \<lparr>Value = 6::real\<rparr>]), (''gripper'', [\<lparr>Value = 7\<rparr>])]) = name ` {f \<in> set (lfs_frames ?L). DoF f \<noteq> []}"
    by blast
  also have "\<dots> = {''arm'', ''gripper''}" unfolding image_name_filter by auto
  finally show ?thesis using run by blast
qed

section \<open>Pivot search finds the lowest common ancestor\<close>

lemma nameSet_loop_eq: "nameSet_loop fl S = S \<union> name ` set fl"
  by (induction fl arbitrary: S) auto

lemma seen_loop_NoPath:
  "(\<And>f. f \<in> set fl \<Longrightarrow> name f \<notin> S) \<Longrightarrow> seen_loop fl S = Inl NoPath"
  by (induction fl) auto

lemma seen_loop_first:
  "(\<And>f. f \<in> set pre \<Longrightarrow> name f \<notin> S) \<Longrightarrow> name p \<in> S \<Longrightarrow>
     seen_loop (pre @ p # rest) S = Inr p"
  by (induction pre) auto

lemma ancestorChain_hd: "ancestorChain parent f l \<Longrightarrow> \<exists>tl. l = f # tl"
  by (induction parent f l rule: ancestorChain.induct) auto

lemma ancestorChain_functional:
  "ancestorChain parent f l \<Longrightarrow> ancestorChain parent f l' \<Longrightarrow> l = l'"
proof (induction l arbitrary: f l')
  case Nil
  then show ?case by simp
next
  case (Cons x xs)
  from Cons.prems(2) obtain z zs where l': "l' = z # zs" by (cases l') auto
  show ?case
  proof (cases xs)
    case Nil
    with Cons.prems l' show ?thesis by (cases zs) auto
  next
    case (Cons y ys)
    with Cons.prems l' obtain zs' where zs: "zs = y # zs'" by (cases zs) auto
    from Cons Cons.prems l' zs have "ancestorChain parent y xs" "ancestorChain parent y zs"
      by auto
    then have "xs = zs" by (rule Cons.IH)
    with Cons.prems l' Cons zs show ?thesis by auto
  qed
qed

lemma ancestorChain_suffix:
  "ancestorChain parent f (pre @ x # suf) \<Longrightarrow> ancestorChain parent x (x # suf)"
proof (induction pre arbitrary: f)
  case Nil
  then show ?case using ancestorChain_hd by fastforce
next
  case (Cons a pre)
  then show ?case by (cases pre) auto
qed

lemma ancestorChain_distinct: "ancestorChain parent f l \<Longrightarrow> distinct l"
proof (induction parent f l rule: ancestorChain.induct)
  case (1 parent f)
  then show ?case by simp
next
  case (2 parent f x)
  then show ?case by simp
next
  case (3 parent f x y ys)
  then have d: "distinct (y # ys)" and xf: "x = f" by simp_all
  have "x \<notin> set (y # ys)"
  proof
    assume "x \<in> set (y # ys)"
    then obtain pre suf where sp: "y # ys = pre @ x # suf" by (meson split_list)
    from "3.prems" have "ancestorChain parent y (y # ys)" by simp
    then have "ancestorChain parent x (x # suf)"
      unfolding sp by (rule ancestorChain_suffix)
    with "3.prems" xf have "x # y # ys = x # suf"
      using ancestorChain_functional by blast
    then have "length (y # ys) = length suf" by simp
    also have "length suf < length (pre @ x # suf)" by simp
    finally show False using sp by simp
  qed
  with d show ?case by simp
qed

lemma chains_split:
  assumes c1: "ancestorChain parent a l1" and c2: "ancestorChain parent b l2"
    and common: "set l1 \<inter> set l2 \<noteq> {}"
  shows "\<exists>p pre1 pre2 suf. l1 = pre1 @ p # suf \<and> l2 = pre2 @ p # suf \<and>
           set pre1 \<inter> set l2 = {} \<and> set pre2 \<inter> set l1 = {}"
proof -
  from common have "\<exists>x \<in> set l1. x \<in> set l2" by auto
  then obtain pre1 p suf where l1: "l1 = pre1 @ p # suf" and p2: "p \<in> set l2"
    and n1: "\<forall>y \<in> set pre1. y \<notin> set l2"
    using split_list_first_prop [of l1 "\<lambda>x. x \<in> set l2"] by auto
  from p2 obtain pre2 suf2 where l2: "l2 = pre2 @ p # suf2" by (meson split_list)
  have "ancestorChain parent p (p # suf)" using c1 l1 ancestorChain_suffix by blast
  moreover have "ancestorChain parent p (p # suf2)" using c2 l2 ancestorChain_suffix by blast
  ultimately have suf: "suf2 = suf" using ancestorChain_functional by blast
  have d2: "distinct l2" using c2 by (rule ancestorChain_distinct)
  have "set pre2 \<inter> set l1 = {}"
  proof (rule ccontr)
    assume "set pre2 \<inter> set l1 \<noteq> {}"
    then obtain y where y2: "y \<in> set pre2" and y1: "y \<in> set l1" by auto
    from y2 l2 have yl2: "y \<in> set l2" by simp
    with n1 have "y \<notin> set pre1" by blast
    with y1 l1 have "y \<in> set (p # suf)" by auto
    with y2 d2 l2 suf show False by auto
  qed
  with l1 l2 suf n1 show ?thesis by blast
qed

lemma findPivotFrame_cases:
  "findPivotFrame l1 l2 = seen_loop l2 (name ` set l1) \<or>
   findPivotFrame l1 l2 = seen_loop l1 (name ` set l2)"
  by (simp add: findPivotFrame_def nameSet_loop_eq)

text \<open>
  Claim C1. Take a tree of frames, given by its parent function, in which distinct frames have
  distinct names, and the ancestor chains of two frames \<open>a\<close> and \<open>b\<close> (the solve list and the
  goal list). If the chains share no frame name, \<open>findPivotFrame\<close> fails with the "no path"
  error, whichever list comes first. Otherwise it returns, whichever list comes first, the same
  frame \<open>pivot\<close>: the chains are \<open>pre1 @ pivot # suf\<close> and \<open>pre2 @ pivot # suf\<close>, so the pivot is an
  ancestor (or the frame itself) on both sides and the two chains agree from the pivot up to
  the root, and no frame below the pivot on one side occurs in the other chain, so the pivot is
  the lowest common ancestor and the only one.
\<close>

theorem findPivotFrame_lowest_common_ancestor:
  assumes "ancestorChain parent a solveList" and "ancestorChain parent b goalList"
    and "inj_on name (set solveList \<union> set goalList)"
  shows "if name ` set solveList \<inter> name ` set goalList = {}
         then findPivotFrame solveList goalList = Inl NoPath \<and>
              findPivotFrame goalList solveList = Inl NoPath
         else \<exists>pivot pre1 pre2 suf.
                findPivotFrame solveList goalList = Inr pivot \<and>
                findPivotFrame goalList solveList = Inr pivot \<and>
                solveList = pre1 @ pivot # suf \<and> goalList = pre2 @ pivot # suf \<and>
                set pre1 \<inter> set goalList = {} \<and> set pre2 \<inter> set solveList = {}"
proof (cases "name ` set solveList \<inter> name ` set goalList = {}")
  case True
  then have "seen_loop goalList (name ` set solveList) = Inl NoPath"
    "seen_loop solveList (name ` set goalList) = Inl NoPath"
    by (auto intro!: seen_loop_NoPath)
  with True findPivotFrame_cases [of solveList goalList] findPivotFrame_cases [of goalList solveList]
  show ?thesis by auto
next
  case False
  then obtain x y where xy: "x \<in> set solveList" "y \<in> set goalList" "name x = name y" by auto
  with assms(3) have "x = y" by (auto dest: inj_onD)
  with xy have "set solveList \<inter> set goalList \<noteq> {}" by auto
  from chains_split [OF assms(1,2) this]
  obtain p pre1 pre2 suf where sp: "solveList = pre1 @ p # suf" "goalList = pre2 @ p # suf"
    "set pre1 \<inter> set goalList = {}" "set pre2 \<inter> set solveList = {}" by blast
  have n1: "name f \<notin> name ` set goalList" if "f \<in> set pre1" for f
  proof
    assume "name f \<in> name ` set goalList"
    then obtain g where g: "g \<in> set goalList" "name f = name g" by auto
    from that sp(1) have "f \<in> set solveList" by simp
    with g assms(3) have "f = g" by (auto dest: inj_onD)
    with g that sp(3) show False by auto
  qed
  have n2: "name f \<notin> name ` set solveList" if "f \<in> set pre2" for f
  proof
    assume "name f \<in> name ` set solveList"
    then obtain g where g: "g \<in> set solveList" "name f = name g" by auto
    from that sp(2) have "f \<in> set goalList" by simp
    with g assms(3) have "f = g" by (auto dest: inj_onD)
    with g that sp(4) show False by auto
  qed
  have "seen_loop (pre1 @ p # suf) (name ` set goalList) = Inr p"
    using n1 sp(2) by (intro seen_loop_first) auto
  moreover have "seen_loop (pre2 @ p # suf) (name ` set solveList) = Inr p"
    using n2 sp(1) by (intro seen_loop_first) auto
  ultimately have "findPivotFrame solveList goalList = Inr p" "findPivotFrame goalList solveList = Inr p"
    using findPivotFrame_cases [of solveList goalList] findPivotFrame_cases [of goalList solveList] sp(1,2)
    by auto
  with False sp show ?thesis by auto
qed

theorem findPivotFrame_lowest_common_ancestor_witness:
  "ancestorChain exParent (exFrame 4 ''gripper'' 1 False)
     [exFrame 4 ''gripper'' 1 False, exFrame 3 ''arm'' 6 False, exFrame 2 ''base'' 0 False,
      exFrame 1 ''world'' 0 False] \<and>
   ancestorChain exParent (exFrame 5 ''camera'' 0 False)
     [exFrame 5 ''camera'' 0 False, exFrame 3 ''arm'' 6 False, exFrame 2 ''base'' 0 False,
      exFrame 1 ''world'' 0 False] \<and>
   (\<exists>pivot pre1 pre2 suf.
      findPivotFrame
        [exFrame 4 ''gripper'' 1 False, exFrame 3 ''arm'' 6 False, exFrame 2 ''base'' 0 False,
         exFrame 1 ''world'' 0 False]
        [exFrame 5 ''camera'' 0 False, exFrame 3 ''arm'' 6 False, exFrame 2 ''base'' 0 False,
         exFrame 1 ''world'' 0 False] = Inr pivot \<and>
      findPivotFrame
        [exFrame 5 ''camera'' 0 False, exFrame 3 ''arm'' 6 False, exFrame 2 ''base'' 0 False,
         exFrame 1 ''world'' 0 False]
        [exFrame 4 ''gripper'' 1 False, exFrame 3 ''arm'' 6 False, exFrame 2 ''base'' 0 False,
         exFrame 1 ''world'' 0 False] = Inr pivot \<and>
      [exFrame 4 ''gripper'' 1 False, exFrame 3 ''arm'' 6 False, exFrame 2 ''base'' 0 False,
       exFrame 1 ''world'' 0 False] = pre1 @ pivot # suf \<and>
      [exFrame 5 ''camera'' 0 False, exFrame 3 ''arm'' 6 False, exFrame 2 ''base'' 0 False,
       exFrame 1 ''world'' 0 False] = pre2 @ pivot # suf)"
proof -
  let ?S = "[exFrame 4 ''gripper'' 1 False, exFrame 3 ''arm'' 6 False, exFrame 2 ''base'' 0 False,
      exFrame 1 ''world'' 0 False]"
  let ?G = "[exFrame 5 ''camera'' 0 False, exFrame 3 ''arm'' 6 False, exFrame 2 ''base'' 0 False,
      exFrame 1 ''world'' 0 False]"
  have s: "ancestorChain exParent (exFrame 4 ''gripper'' 1 False) ?S"
    by (simp add: exParent_def)
  have g: "ancestorChain exParent (exFrame 5 ''camera'' 0 False) ?G"
    by (simp add: exParent_def)
  have i: "inj_on name (set ?S \<union> set ?G)"
    by (simp add: inj_on_def)
  have n: "name ` set ?S \<inter> name ` set ?G \<noteq> {}"
    by simp
  from findPivotFrame_lowest_common_ancestor [OF s g i] n s g show ?thesis
    by (simp only: if_False) blast
qed

section \<open>The moving subsystem of one side\<close>

lemma moveF_loop_find:
  "n \<le> length frameList \<Longrightarrow>
     moveF_loop frameList n = find (\<lambda>f. DoF f \<noteq> []) (rev (take n frameList))"
proof (induction n)
  case 0
  show ?case by simp
next
  case (Suc n)
  then have "take (Suc n) frameList = take n frameList @ [frameList ! n]"
    by (simp add: take_Suc_conv_app_nth)
  with Suc show ?case by simp
qed

lemma find_skip:
  "(\<And>x. x \<in> set xs \<Longrightarrow> \<not> P x) \<Longrightarrow> find P (xs @ ys) = find P ys"
  by (induction xs) auto

lemma moveF_loop_full:
  "moveF_loop frameList (length frameList) = find (\<lambda>f. DoF f \<noteq> []) (rev frameList)"
  using moveF_loop_find [of "length frameList" frameList] by simp

lemma moveF_loop_last:
  assumes "DoF m \<noteq> []" and "\<And>f. f \<in> set post \<Longrightarrow> DoF f = []"
  shows "moveF_loop (pre @ m # post) (length (pre @ m # post)) = Some m"
proof -
  have "find (\<lambda>f. DoF f \<noteq> []) (rev post @ m # rev pre) = find (\<lambda>f. DoF f \<noteq> []) (m # rev pre)"
    using assms(2) by (intro find_skip) auto
  with assms(1) show ?thesis unfolding moveF_loop_full by simp
qed

lemma moveF_loop_None:
  assumes "\<And>f. f \<in> set frameList \<Longrightarrow> DoF f = []"
  shows "moveF_loop frameList (length frameList) = None"
  unfolding moveF_loop_full using assms by (simp add: find_None_iff)

text \<open>
  Claim C4, amended. The closure \<open>movingFS\<close> scans the chain from its end, which is the end of
  the pivot or root, toward the leaf, and roots the moving subsystem at the first frame with
  degrees of freedom that it meets: the last such frame of the list, the one nearest the root.
  If no frame of the chain has degrees of freedom, the moving subsystem is the empty frame
  system.
\<close>

theorem movingFS_closure_rootmost_moving_frame:
  "(\<forall>pre m post. frameList = pre @ m # post \<and> DoF m \<noteq> [] \<and> (\<forall>f \<in> set post. DoF f = []) \<longrightarrow>
       movingFS_closure rf fs frameList = FrameSystemSubset rf fs m) \<and>
   ((\<forall>f \<in> set frameList. DoF f = []) \<longrightarrow>
       movingFS_closure rf fs frameList = Inr (NewEmptyFrameSystem rf []))"
proof (intro conjI allI impI)
  fix pre m post
  assume "frameList = pre @ m # post \<and> DoF m \<noteq> [] \<and> (\<forall>f \<in> set post. DoF f = [])"
  then have "moveF_loop frameList (length frameList) = Some m"
    using moveF_loop_last [of m post pre] by blast
  then show "movingFS_closure rf fs frameList = FrameSystemSubset rf fs m"
    by (simp only: movingFS_closure_def option.case)
next
  assume "\<forall>f \<in> set frameList. DoF f = []"
  then have "moveF_loop frameList (length frameList) = None"
    by (intro moveF_loop_None) blast
  then show "movingFS_closure rf fs frameList = Inr (NewEmptyFrameSystem rf [])"
    by (simp only: movingFS_closure_def option.case)
qed

text \<open>
  On the chain gripper, arm, base, world the subsystem is rooted at the arm, and the chain
  base, world gives the empty frame system.
\<close>

theorem movingFS_closure_rootmost_moving_frame_witness:
  "movingFS_closure exRf exRobot
     [exFrame 3 ''gripper'' 1 False, exFrame 2 ''arm'' 2 False, exFrame 1 ''base'' 0 False, exWorld]
   = Inr [(exFrame 2 ''arm'' 2 False, World), (exFrame 3 ''gripper'' 1 False, ''arm''),
          (exFrame 4 ''camera'' 0 False, ''gripper'')] \<and>
   movingFS_closure exRf exRobot [exFrame 1 ''base'' 0 False, exWorld] = Inr []"
proof -
  let ?L = "[exFrame 3 ''gripper'' 1 False, exFrame 2 ''arm'' 2 False, exFrame 1 ''base'' 0 False, exWorld]"
  have d: "?L = [exFrame 3 ''gripper'' 1 False] @ exFrame 2 ''arm'' 2 False # [exFrame 1 ''base'' 0 False, exWorld]
      \<and> DoF (exFrame 2 ''arm'' 2 False) \<noteq> [] \<and> (\<forall>f \<in> set [exFrame 1 ''base'' 0 False, exWorld]. DoF f = [])"
    by (simp add: exWorld_def)
  have e: "\<forall>f \<in> set [exFrame 1 ''base'' 0 False, exWorld]. DoF f = []"
    by (simp add: exWorld_def)
  have sub: "FrameSystemSubset exRf exRobot (exFrame 2 ''arm'' 2 False) =
      Inr [(exFrame 2 ''arm'' 2 False, World), (exFrame 3 ''gripper'' 1 False, ''arm''),
          (exFrame 4 ''camera'' 0 False, ''gripper'')]"
    by (simp add: exRf_def exSubset_def exRobot_def exLookup_def exTraceback_def exWorld_def World_def exFrame_def)
  from movingFS_closure_rootmost_moving_frame [of ?L exRf exRobot] d sub
  have "movingFS_closure exRf exRobot ?L = Inr [(exFrame 2 ''arm'' 2 False, World), (exFrame 3 ''gripper'' 1 False, ''arm''),
          (exFrame 4 ''camera'' 0 False, ''gripper'')]"
    by metis
  moreover from movingFS_closure_rootmost_moving_frame [of "[exFrame 1 ''base'' 0 False, exWorld]" exRf exRobot] e
  have "movingFS_closure exRf exRobot [exFrame 1 ''base'' 0 False, exWorld] = Inr []"
    by (simp add: exRf_def)
  ultimately show ?thesis by simp
qed

text \<open>
  Claim C4 as stated fails on that chain: scanning from the leaf would root the subsystem at
  the gripper, which leaves the arm out.
\<close>

theorem movingFS_leafFirst_counterexample:
  "movingFS_closure exRf exRobot
     [exFrame 3 ''gripper'' 1 False, exFrame 2 ''arm'' 2 False, exFrame 1 ''base'' 0 False, exWorld]
   \<noteq> movingFS_leafFirst exRf exRobot
     [exFrame 3 ''gripper'' 1 False, exFrame 2 ''arm'' 2 False, exFrame 1 ''base'' 0 False, exWorld]"
  by (simp add: movingFS_closure_def movingFS_leafFirst_def exRf_def exSubset_def exRobot_def
      exLookup_def exTraceback_def exWorld_def World_def exFrame_def numeral_nat)

section \<open>World-rooted chains\<close>

lemma span_loop_eq:
  "span_loop p l (d, fr, mv) =
     (d + sum_list (map (\<lambda>f. length (DoF f)) (takeWhile (\<lambda>f. f \<noteq> p) l)),
      fr @ takeWhile (\<lambda>f. f \<noteq> p) l, mv @ takeWhile (\<lambda>f. f \<noteq> p) l)"
  by (induction l arbitrary: d fr mv) auto

lemma span_loop_dof:
  "span_loop p l (d, fr, mv) = (d', fr', mv') \<Longrightarrow> d' = d + dofBelow p l"
  by (simp add: span_loop_eq dofBelow_def)

text \<open>
  Claim C3. For a chain that \<open>motionChainFromGoal\<close> has built, with the solve list, the goal
  list and the pivot it went through: the chain is world-rooted if and only if the pivot is not
  named World and the frames before the pivot, on the solve side and on the goal side together,
  have no degree of freedom; and a world-rooted chain has the whole solve list as its frames
  and the moving subsystem that the closure \<open>movingFS\<close> derives from the solve list alone.
\<close>

theorem motionChainFromGoal_worldRooted:
  assumes "motionChainFromGoal rf fs moveFrame goalName = Inr chain"
  shows "\<exists>goalFrame goalFrameList solveFrame solveFrameList pivotFrame.
           Frame rf fs goalName = Some goalFrame \<and>
           TracebackFrame rf fs goalFrame = Inr goalFrameList \<and>
           Frame rf fs moveFrame = Some solveFrame \<and>
           TracebackFrame rf fs solveFrame = Inr solveFrameList \<and>
           findPivotFrame solveFrameList goalFrameList = Inr pivotFrame \<and>
           (worldRooted chain \<longleftrightarrow>
              name pivotFrame \<noteq> World \<and>
              dofBelow pivotFrame solveFrameList + dofBelow pivotFrame goalFrameList = 0) \<and>
           (worldRooted chain \<longrightarrow>
              frames chain = solveFrameList \<and>
              movingFS_closure rf fs solveFrameList = Inr (movingFS chain))"
proof -
  from assms obtain goalFrame where gf: "Frame rf fs goalName = Some goalFrame"
    by (auto simp: motionChainFromGoal_def split: option.splits)
  from assms gf obtain goalFrameList where gl: "TracebackFrame rf fs goalFrame = Inr goalFrameList"
    by (auto simp: motionChainFromGoal_def split: sum.splits)
  from assms gf gl obtain solveFrame where sf: "Frame rf fs moveFrame = Some solveFrame"
    by (auto simp: motionChainFromGoal_def split: option.splits)
  from assms gf gl sf obtain solveFrameList where sl: "TracebackFrame rf fs solveFrame = Inr solveFrameList"
    by (auto simp: motionChainFromGoal_def split: sum.splits)
  from assms gf gl sf sl have ne: "length solveFrameList \<noteq> 0"
    by (auto simp: motionChainFromGoal_def split: if_splits)
  from assms gf gl sf sl ne obtain pivotFrame where
    pv: "findPivotFrame solveFrameList goalFrameList = Inr pivotFrame"
    by (auto simp: motionChainFromGoal_def split: sum.splits)
  have rest: "(worldRooted chain \<longleftrightarrow>
              name pivotFrame \<noteq> World \<and>
              dofBelow pivotFrame solveFrameList + dofBelow pivotFrame goalFrameList = 0) \<and>
           (worldRooted chain \<longrightarrow>
              frames chain = solveFrameList \<and>
              movingFS_closure rf fs solveFrameList = Inr (movingFS chain))"
  proof (cases "name pivotFrame = World")
    case True
    with assms gf gl sf sl ne pv show ?thesis
      by (auto simp: motionChainFromGoal_def split: sum.splits)
  next
    case False
    obtain d1 f1 m1 where s1: "span_loop pivotFrame solveFrameList (0, [], []) = (d1, f1, m1)"
      by (cases "span_loop pivotFrame solveFrameList (0, [], [])") auto
    obtain d2 f2 m2 where s2: "span_loop pivotFrame goalFrameList (d1, f1, []) = (d2, f2, m2)"
      by (cases "span_loop pivotFrame goalFrameList (d1, f1, [])") auto
    have d2: "d2 = dofBelow pivotFrame solveFrameList + dofBelow pivotFrame goalFrameList"
      using span_loop_dof [OF s1] span_loop_dof [OF s2] by simp
    show ?thesis
    proof (cases "d2 = 0")
      case True
      with assms gf gl sf sl ne pv False s1 s2 d2 show ?thesis
        by (auto simp: motionChainFromGoal_def split: sum.splits)
    next
      case nz: False
      with assms gf gl sf sl ne pv False s1 s2 d2 show ?thesis
        by (auto simp: motionChainFromGoal_def split: sum.splits)
    qed
  qed
  show ?thesis
    apply (rule exI [of _ goalFrame], rule exI [of _ goalFrameList], rule exI [of _ solveFrame],
        rule exI [of _ solveFrameList], rule exI [of _ pivotFrame])
    using gf gl sf sl pv rest by simp
qed

text \<open>
  The goal "gripper, in the frame of the camera" on the robot: the pivot is the gripper, the
  camera is rigid, and the chain is world-rooted.
\<close>

lemma ex_gripper_camera:
  "motionChainFromGoal exRf exRobot ''gripper'' ''camera'' =
     Inr \<lparr>movingFS = [(exFrame 2 ''arm'' 2 False, World), (exFrame 3 ''gripper'' 1 False, ''arm''),
                      (exFrame 4 ''camera'' 0 False, ''gripper'')],
          frames = [exFrame 3 ''gripper'' 1 False, exFrame 2 ''arm'' 2 False,
                    exFrame 1 ''base'' 0 False, exWorld],
          solveFrameName = ''gripper'', goalFrameName = ''camera'', worldRooted = True\<rparr>"
  by (simp add: motionChainFromGoal_def movingFS_closure_def findPivotFrame_def exRf_def exSubset_def exRobot_def
      exLookup_def exTraceback_def exWorld_def World_def exFrame_def)

theorem motionChainFromGoal_worldRooted_witness:
  "\<exists>chain goalFrameList solveFrameList pivotFrame.
     motionChainFromGoal exRf exRobot ''gripper'' ''camera'' = Inr chain \<and>
     TracebackFrame exRf exRobot (exFrame 4 ''camera'' 0 False) = Inr goalFrameList \<and>
     TracebackFrame exRf exRobot (exFrame 3 ''gripper'' 1 False) = Inr solveFrameList \<and>
     findPivotFrame solveFrameList goalFrameList = Inr pivotFrame \<and>
     worldRooted chain \<and> name pivotFrame \<noteq> World \<and>
     dofBelow pivotFrame solveFrameList + dofBelow pivotFrame goalFrameList = 0 \<and>
     frames chain = solveFrameList \<and>
     movingFS_closure exRf exRobot solveFrameList = Inr (movingFS chain)"
proof -
  let ?c = "\<lparr>movingFS = [(exFrame 2 ''arm'' 2 False, World), (exFrame 3 ''gripper'' 1 False, ''arm''),
                      (exFrame 4 ''camera'' 0 False, ''gripper'')],
          frames = [exFrame 3 ''gripper'' 1 False, exFrame 2 ''arm'' 2 False,
                    exFrame 1 ''base'' 0 False, exWorld],
          solveFrameName = ''gripper'', goalFrameName = ''camera'', worldRooted = True\<rparr>"
  have gf: "Frame exRf exRobot ''camera'' = Some (exFrame 4 ''camera'' 0 False)"
    and sf: "Frame exRf exRobot ''gripper'' = Some (exFrame 3 ''gripper'' 1 False)"
    by (simp_all add: exRf_def exLookup_def exRobot_def World_def)
  from motionChainFromGoal_worldRooted [OF ex_gripper_camera]
  obtain goalFrame goalFrameList solveFrame solveFrameList pivotFrame where r:
    "Frame exRf exRobot ''camera'' = Some goalFrame"
    "TracebackFrame exRf exRobot goalFrame = Inr goalFrameList"
    "Frame exRf exRobot ''gripper'' = Some solveFrame"
    "TracebackFrame exRf exRobot solveFrame = Inr solveFrameList"
    "findPivotFrame solveFrameList goalFrameList = Inr pivotFrame"
    "worldRooted ?c \<longleftrightarrow> name pivotFrame \<noteq> World \<and>
        dofBelow pivotFrame solveFrameList + dofBelow pivotFrame goalFrameList = 0"
    "worldRooted ?c \<longrightarrow> frames ?c = solveFrameList \<and>
        movingFS_closure exRf exRobot solveFrameList = Inr (movingFS ?c)"
    by (elim exE conjE) (rule that; assumption)
  from r(1) gf have g: "goalFrame = exFrame 4 ''camera'' 0 False" by simp
  from r(3) sf have s: "solveFrame = exFrame 3 ''gripper'' 1 False" by simp
  have w: "worldRooted ?c" by simp
  from r(6) w have p: "name pivotFrame \<noteq> World"
    "dofBelow pivotFrame solveFrameList + dofBelow pivotFrame goalFrameList = 0" by blast+
  from r(7) w have f: "frames ?c = solveFrameList"
    "movingFS_closure exRf exRobot solveFrameList = Inr (movingFS ?c)" by blast+
  show ?thesis
    apply (rule exI [of _ ?c], rule exI [of _ goalFrameList], rule exI [of _ solveFrameList],
        rule exI [of _ pivotFrame])
    using ex_gripper_camera r(2,4,5) g s w p f by (intro conjI) simp_all
qed

section \<open>Exclusivity of PTG frames\<close>

lemma ptgFrames_loop_many:
  "n > 1 \<Longrightarrow>
     ptgFrames_loop n fl (False, nm, c) =
       (if \<exists>f \<in> set fl. isPTG f then Inl MixedFrameTypes else Inr (False, nm, c))"
  by (induction fl) auto

lemma ptgChains_loop_many:
  "n > 1 \<Longrightarrow>
     ptgChains_loop n cs (False, nm, scanned) =
       (if \<exists>c \<in> set cs. \<exists>f \<in> set (frames c). isPTG f then Inl MixedFrameTypes
        else Inr (False, nm, scanned @ cs))"
  by (induction cs arbitrary: scanned) (auto simp: ptgFrames_loop_many)

lemma ptgFrames_loop_before:
  "(\<And>f. f \<in> set pre \<Longrightarrow> \<not> isPTG f) \<Longrightarrow>
     ptgFrames_loop n (pre @ rest) (False, nm, c) = ptgFrames_loop n rest (False, nm, c)"
  by (induction pre) auto

lemma ptgFrames_loop_after:
  "ptgFrames_loop n post (True, nm, c) =
     (case find (\<lambda>f. isPTG f \<or> DoF f \<noteq> []) post of
        None \<Rightarrow> Inr (True, nm, c)
      | Some q \<Rightarrow> if isPTG q then Inl OnlyOnePTGFrame else Inl MixedFrameTypes)"
  by (induction post) auto

lemma ptgFrames_loop_single:
  assumes "\<And>f. f \<in> set pre \<Longrightarrow> \<not> isPTG f" and "isPTG p"
  shows "ptgFrames_loop (Suc 0) (pre @ p # post) (False, nm, c) =
     (case find (\<lambda>f. isPTG f \<or> DoF f \<noteq> []) post of
        None \<Rightarrow> Inr (True, name p, c\<lparr>worldRooted := True\<rparr>)
      | Some q \<Rightarrow> if isPTG q then Inl OnlyOnePTGFrame else Inl MixedFrameTypes)"
  using assms by (simp add: ptgFrames_loop_before ptgFrames_loop_after)

text \<open>
  Claim C5, amended. Let the goals have given the chains \<open>built\<close>. With two or more chains and
  a PTG frame among the frames of any of them, \<open>motionChainsFromPlanState\<close> fails with the
  mixed-frame-types error. With one chain, whose first PTG frame is \<open>p\<close>: when the next frame
  after \<open>p\<close> that is a PTG frame or has degrees of freedom is a PTG frame, it fails with the
  error that only one PTG frame can be planned for, and when it is an ordinary moving frame,
  with the mixed-frame-types error; when no other frame of the chain is a PTG frame or has
  degrees of freedom, it succeeds with \<open>useTPspace\<close> set, \<open>ptgFrameName\<close> the name of \<open>p\<close> and
  the chain world-rooted.
\<close>

theorem motionChainsFromPlanState_ptg:
  assumes "buildChains rf fs to = Inr built"
  shows "(length built > 1 \<and> (\<exists>c \<in> set built. \<exists>f \<in> set (frames c). isPTG f) \<longrightarrow>
            motionChainsFromPlanState rf fs to = Inl MixedFrameTypes) \<and>
         (\<forall>c pre p post q.
            built = [c] \<and> frames c = pre @ p # post \<and> isPTG p \<and> (\<forall>f \<in> set pre. \<not> isPTG f) \<and>
            find (\<lambda>f. isPTG f \<or> DoF f \<noteq> []) post = Some q \<longrightarrow>
            motionChainsFromPlanState rf fs to =
              (if isPTG q then Inl OnlyOnePTGFrame else Inl MixedFrameTypes)) \<and>
         (\<forall>c pre p post.
            built = [c] \<and> frames c = pre @ p # post \<and> isPTG p \<and>
            (\<forall>f \<in> set (pre @ post). \<not> isPTG f \<and> DoF f = []) \<longrightarrow>
            motionChainsFromPlanState rf fs to =
              Inr \<lparr>inner = [c\<lparr>worldRooted := True\<rparr>], useTPspace = True, ptgFrameName = name p\<rparr>)"
proof (intro conjI allI impI)
  assume "length built > 1 \<and> (\<exists>c \<in> set built. \<exists>f \<in> set (frames c). isPTG f)"
  moreover from this have "\<not> length built < 1" by (cases built) auto
  ultimately show "motionChainsFromPlanState rf fs to = Inl MixedFrameTypes"
    using assms by (simp add: motionChainsFromPlanState_def ptgChains_loop_many del: One_nat_def)
next
  fix c pre p post q
  assume h: "built = [c] \<and> frames c = pre @ p # post \<and> isPTG p \<and> (\<forall>f \<in> set pre. \<not> isPTG f) \<and>
            find (\<lambda>f. isPTG f \<or> DoF f \<noteq> []) post = Some q"
  then have "ptgFrames_loop (Suc 0) (frames c) (False, [], c) =
      (if isPTG q then Inl OnlyOnePTGFrame else Inl MixedFrameTypes)"
    using ptgFrames_loop_single [of pre p post "[]" c] by simp
  with assms h show "motionChainsFromPlanState rf fs to =
              (if isPTG q then Inl OnlyOnePTGFrame else Inl MixedFrameTypes)"
    by (simp add: motionChainsFromPlanState_def)
next
  fix c pre p post
  assume h: "built = [c] \<and> frames c = pre @ p # post \<and> isPTG p \<and>
            (\<forall>f \<in> set (pre @ post). \<not> isPTG f \<and> DoF f = [])"
  then have "find (\<lambda>f. isPTG f \<or> DoF f \<noteq> []) post = None"
    by (auto simp: find_None_iff)
  with h have "ptgFrames_loop (Suc 0) (frames c) (False, [], c) =
      Inr (True, name p, c\<lparr>worldRooted := True\<rparr>)"
    using ptgFrames_loop_single [of pre p post "[]" c] by simp
  with assms h show "motionChainsFromPlanState rf fs to =
              Inr \<lparr>inner = [c\<lparr>worldRooted := True\<rparr>], useTPspace = True, ptgFrameName = name p\<rparr>"
    by (simp add: motionChainsFromPlanState_def)
qed

text \<open>
  A pose goal for the lidar of the truck: one chain (lidar, base, world) with the base as its
  only PTG frame.
\<close>

lemma ex_lidar_chains:
  "buildChains exRf exTruck \<lparr>poses = Some [(''lidar'', (World, 0))], configuration = []\<rparr> =
     Inr [\<lparr>movingFS = exTruck,
           frames = [exFrame 3 ''lidar'' 0 False, exFrame 1 ''base'' 2 True, exWorld],
           solveFrameName = ''lidar'', goalFrameName = World, worldRooted = False\<rparr>]"
  by (simp add: buildChains_def motionChainFromGoal_def movingFS_closure_def findPivotFrame_def
      uniqInPlaceSlice_def exTruck_def ex_defs)

theorem motionChainsFromPlanState_ptg_witness:
  "motionChainsFromPlanState exRf exTruck
     \<lparr>poses = Some [(''lidar'', (World, 0))], configuration = []\<rparr> =
   Inr \<lparr>inner = [\<lparr>movingFS = exTruck,
                   frames = [exFrame 3 ''lidar'' 0 False, exFrame 1 ''base'' 2 True, exWorld],
                   solveFrameName = ''lidar'', goalFrameName = World, worldRooted = True\<rparr>],
        useTPspace = True, ptgFrameName = ''base''\<rparr>"
proof -
  let ?c = "\<lparr>movingFS = exTruck,
           frames = [exFrame 3 ''lidar'' 0 False, exFrame 1 ''base'' 2 True, exWorld],
           solveFrameName = ''lidar'', goalFrameName = World, worldRooted = False\<rparr>"
  have h: "[?c] = [?c] \<and> frames ?c = [exFrame 3 ''lidar'' 0 False] @ exFrame 1 ''base'' 2 True # [exWorld] \<and>
      isPTG (exFrame 1 ''base'' 2 True) \<and>
      (\<forall>f \<in> set ([exFrame 3 ''lidar'' 0 False] @ [exWorld]). \<not> isPTG f \<and> DoF f = [])"
    by (simp add: exWorld_def)
  from motionChainsFromPlanState_ptg [OF ex_lidar_chains]
  have "\<forall>c pre p post.
            [?c] = [c] \<and> frames c = pre @ p # post \<and> isPTG p \<and>
            (\<forall>f \<in> set (pre @ post). \<not> isPTG f \<and> DoF f = []) \<longrightarrow>
            motionChainsFromPlanState exRf exTruck \<lparr>poses = Some [(''lidar'', (World, 0))], configuration = []\<rparr> =
              Inr \<lparr>inner = [c\<lparr>worldRooted := True\<rparr>], useTPspace = True, ptgFrameName = name p\<rparr>"
    by blast
  from this [rule_format, OF h] show ?thesis by simp
qed

text \<open>
  Claim C5 as stated fails on a pose goal for the trailer: its one chain has two PTG frames,
  and the error is the one that only one PTG frame can be planned for, not the
  mixed-frame-types error. It also fails on a pose goal for the rover: there is one chain
  (rover, gantry, world), the rover is the only PTG frame, and the construction fails with the
  mixed-frame-types error, the gantry being an ordinary moving frame after the rover.
\<close>

theorem motionChainsFromPlanState_two_ptg_counterexample:
  "motionChainsFromPlanState exRf exTruck
     \<lparr>poses = Some [(''trailer'', (World, 0))], configuration = []\<rparr> = Inl OnlyOnePTGFrame \<and>
   map_sum id (map (map name \<circ> frames))
     (buildChains exRf exGantry \<lparr>poses = Some [(''rover'', (World, 0))], configuration = []\<rparr>) =
     Inr [[''rover'', ''gantry'', ''world'']] \<and>
   motionChainsFromPlanState exRf exGantry
     \<lparr>poses = Some [(''rover'', (World, 0))], configuration = []\<rparr> = Inl MixedFrameTypes"
  by (simp add: motionChainsFromPlanState_def buildChains_def motionChainFromGoal_def
      movingFS_closure_def findPivotFrame_def uniqInPlaceSlice_def exTruck_def exGantry_def ex_defs)

section \<open>The partition of the geometries\<close>

lemma inMovingFS_iff:
  "inMovingFS rf cs n \<longleftrightarrow> (\<exists>c \<in> set cs. Frame rf (movingFS c) n \<noteq> None)"
  by (induction cs) auto

lemma geometries_loop_partition:
  assumes "\<forall>(n, g) \<in> set gs.
             (\<exists>c \<in> set (inner mC). Frame rf (movingFS c) n \<noteq> None) \<or> Frame rf fs n \<noteq> None"
  shows "geometries_loop rf mC fs gs (mv, st) =
     Inr (mv @ concat (map snd (filter (\<lambda>(n, g). classifiedMoving rf mC fs n) gs)),
          st @ concat (map snd (filter (\<lambda>(n, g). \<not> classifiedMoving rf mC fs n) gs)))"
  using assms
proof (induction gs arbitrary: mv st)
  case Nil
  show ?case by simp
next
  case (Cons a gs)
  obtain n g where a: "a = (n, g)" by (cases a)
  have rest: "\<forall>(n, g) \<in> set gs.
             (\<exists>c \<in> set (inner mC). Frame rf (movingFS c) n \<noteq> None) \<or> Frame rf fs n \<noteq> None"
    using Cons.prems by auto
  note IH = Cons.IH [OF rest]
  show ?case
  proof (cases "inMovingFS rf (inner mC) n")
    case True
    then have "classifiedMoving rf mC fs n"
      by (simp add: classifiedMoving_def inMovingFS_iff)
    with True show ?thesis unfolding a by (simp add: IH)
  next
    case False
    with Cons.prems a obtain f where f: "Frame rf fs n = Some f"
      by (auto simp: inMovingFS_iff)
    from False f have "classifiedMoving rf mC fs n \<longleftrightarrow> DoF f \<noteq> []"
      by (simp add: classifiedMoving_def inMovingFS_iff)
    with False f show ?thesis unfolding a by (simp add: IH)
  qed
qed

text \<open>
  Claim C6. Let every name of the geometry map be the name of a frame, of some chain's moving
  subsystem or of the frame system. Then \<open>geometries\<close> returns two lists: the first is made
  of the geometries of the names classified as moving (in some chain's moving subsystem, or
  with degrees of freedom in the frame system), the second of the geometries of all other
  names, each in the order of the map. So every entry of the map goes to exactly one of the
  two lists.
\<close>

theorem geometries_bipartition:
  assumes "\<forall>(n, g) \<in> set frameSystemGeometries.
             (\<exists>c \<in> set (inner mC). Frame rf (movingFS c) n \<noteq> None) \<or> Frame rf fs n \<noteq> None"
  shows "geometries rf mC fs frameSystemGeometries =
     Inr (concat (map snd (filter (\<lambda>(n, g). classifiedMoving rf mC fs n) frameSystemGeometries)),
          concat (map snd (filter (\<lambda>(n, g). \<not> classifiedMoving rf mC fs n) frameSystemGeometries)))"
  using geometries_loop_partition [OF assms, of "[]" "[]"]
  by (simp add: geometries_def)

theorem geometries_bipartition_witness:
  "geometries exRf exChains exRobot
     [(''base'', [1::nat]), (''arm'', [2, 3]), (''camera'', [4]), (''gripper'', [])] =
   Inr ([2, 3, 4], [1])"
proof -
  have h: "\<forall>(n, g) \<in> set [(''base'', [1::nat]), (''arm'', [2, 3]), (''camera'', [4]), (''gripper'', [])].
      (\<exists>c \<in> set (inner exChains). Frame exRf (movingFS c) n \<noteq> None) \<or> Frame exRf exRobot n \<noteq> None"
    by (simp add: exRf_def exLookup_def exRobot_def World_def)
  have c: "\<not> classifiedMoving exRf exChains exRobot ''base''"
    "classifiedMoving exRf exChains exRobot ''arm''"
    "classifiedMoving exRf exChains exRobot ''camera''"
    "classifiedMoving exRf exChains exRobot ''gripper''"
    by (simp_all add: classifiedMoving_def exChains_def exRf_def exLookup_def exRobot_def World_def)
  from geometries_bipartition [OF h] c show ?thesis by simp
qed

section \<open>Translating goals to World\<close>

lemma alteredGoals_loop_distinct:
  assumes "distinct (map solveFrameName cs)"
    and "\<forall>c \<in> set cs. \<forall>pif.
           worldRooted c \<and> map_of goalPoses (solveFrameName c) = Some pif \<longrightarrow>
           (\<exists>tf. Transform rf fs start pif World = Inr tf)"
  shows "\<exists>res. alteredGoals_loop rf fs start goalPoses cs sofar = Inr res \<and>
           (\<forall>c \<in> set cs. \<forall>pif.
              map_of goalPoses (solveFrameName c) = Some pif \<longrightarrow>
              (\<exists>v. map_of res (solveFrameName c) = Some v \<and>
                   (if worldRooted c then Transform rf fs start pif World = Inr v
                    else v = pif))) \<and>
           (\<forall>n. n \<notin> solveFrameName ` set cs \<or> map_of goalPoses n = None \<longrightarrow>
              map_of res n = map_of sofar n)"
  using assms
proof (induction cs arbitrary: sofar)
  case Nil
  show ?case by simp
next
  case (Cons c cs)
  have d: "distinct (map solveFrameName cs)"
    and fresh: "solveFrameName c \<notin> solveFrameName ` set cs"
    using Cons.prems(1) by simp_all
  have rest: "\<forall>c' \<in> set cs. \<forall>pif.
           worldRooted c' \<and> map_of goalPoses (solveFrameName c') = Some pif \<longrightarrow>
           (\<exists>tf. Transform rf fs start pif World = Inr tf)"
    using Cons.prems(2) by auto
  note IH = Cons.IH [OF d rest]
  show ?case
  proof (cases "map_of goalPoses (solveFrameName c)")
    case None
    from IH [where sofar = sofar]
    obtain res where run: "alteredGoals_loop rf fs start goalPoses cs sofar = Inr res"
      and own: "\<forall>c' \<in> set cs. \<forall>pif.
              map_of goalPoses (solveFrameName c') = Some pif \<longrightarrow>
              (\<exists>v. map_of res (solveFrameName c') = Some v \<and>
                   (if worldRooted c' then Transform rf fs start pif World = Inr v
                    else v = pif))"
      and other: "\<forall>n. n \<notin> solveFrameName ` set cs \<or> map_of goalPoses n = None \<longrightarrow>
              map_of res n = map_of sofar n"
      by blast
    have "alteredGoals_loop rf fs start goalPoses (c # cs) sofar = Inr res"
      using None run by simp
    moreover have "\<forall>c' \<in> set (c # cs). \<forall>pif.
              map_of goalPoses (solveFrameName c') = Some pif \<longrightarrow>
              (\<exists>v. map_of res (solveFrameName c') = Some v \<and>
                   (if worldRooted c' then Transform rf fs start pif World = Inr v
                    else v = pif))"
      using own None by auto
    moreover have "\<forall>n. n \<notin> solveFrameName ` set (c # cs) \<or> map_of goalPoses n = None \<longrightarrow>
              map_of res n = map_of sofar n"
      using other by auto
    ultimately show ?thesis by blast
  next
    case (Some pif)
    obtain v where v: "if worldRooted c then Transform rf fs start pif World = Inr v else v = pif"
      using Cons.prems(2) Some by (cases "worldRooted c") auto
    have step: "alteredGoals_loop rf fs start goalPoses (c # cs) sofar =
        alteredGoals_loop rf fs start goalPoses cs (AList.update (solveFrameName c) v sofar)"
      using Some v by (cases "worldRooted c") auto
    from IH [where sofar = "AList.update (solveFrameName c) v sofar"]
    obtain res where run: "alteredGoals_loop rf fs start goalPoses cs
          (AList.update (solveFrameName c) v sofar) = Inr res"
      and own: "\<forall>c' \<in> set cs. \<forall>pif.
              map_of goalPoses (solveFrameName c') = Some pif \<longrightarrow>
              (\<exists>v. map_of res (solveFrameName c') = Some v \<and>
                   (if worldRooted c' then Transform rf fs start pif World = Inr v
                    else v = pif))"
      and other: "\<forall>n. n \<notin> solveFrameName ` set cs \<or> map_of goalPoses n = None \<longrightarrow>
              map_of res n = map_of (AList.update (solveFrameName c) v sofar) n"
      by blast
    have here: "map_of res (solveFrameName c) = Some v"
      using other fresh by (simp add: update_conv')
    have "alteredGoals_loop rf fs start goalPoses (c # cs) sofar = Inr res"
      using step run by simp
    moreover have "\<forall>c' \<in> set (c # cs). \<forall>pif'.
              map_of goalPoses (solveFrameName c') = Some pif' \<longrightarrow>
              (\<exists>v. map_of res (solveFrameName c') = Some v \<and>
                   (if worldRooted c' then Transform rf fs start pif' World = Inr v
                    else v = pif'))"
      using own here v Some by auto
    moreover have "\<forall>n. n \<notin> solveFrameName ` set (c # cs) \<or> map_of goalPoses n = None \<longrightarrow>
              map_of res n = map_of sofar n"
    proof (intro allI impI)
      fix n
      assume n: "n \<notin> solveFrameName ` set (c # cs) \<or> map_of goalPoses n = None"
      with Some have ne: "n \<noteq> solveFrameName c" by auto
      from n have "n \<notin> solveFrameName ` set cs \<or> map_of goalPoses n = None" by auto
      with other have "map_of res n = map_of (AList.update (solveFrameName c) v sofar) n"
        by blast
      with ne show "map_of res n = map_of sofar n" by (simp add: update_conv')
    qed
    ultimately show ?thesis by blast
  qed
qed

lemma alteredGoals_loop_skip:
  assumes "\<forall>c \<in> set pre. \<forall>pif.
             worldRooted c \<and> map_of goalPoses (solveFrameName c) = Some pif \<longrightarrow>
             (\<exists>tf. Transform rf fs start pif World = Inr tf)"
  shows "\<exists>sofar'. alteredGoals_loop rf fs start goalPoses (pre @ rest) sofar =
           alteredGoals_loop rf fs start goalPoses rest sofar'"
  using assms
proof (induction pre arbitrary: sofar)
  case Nil
  show ?case by auto
next
  case (Cons c pre)
  have rest: "\<forall>c' \<in> set pre. \<forall>pif.
             worldRooted c' \<and> map_of goalPoses (solveFrameName c') = Some pif \<longrightarrow>
             (\<exists>tf. Transform rf fs start pif World = Inr tf)"
    using Cons.prems by auto
  note IH = Cons.IH [OF rest]
  show ?case
  proof (cases "map_of goalPoses (solveFrameName c)")
    case None
    with IH [where sofar = sofar] show ?thesis by simp
  next
    case (Some pif)
    show ?thesis
    proof (cases "worldRooted c")
      case True
      with Cons.prems Some obtain tf where tf: "Transform rf fs start pif World = Inr tf"
        by auto
      with IH [where sofar = "AList.update (solveFrameName c) tf sofar"] Some True
      show ?thesis by simp
    next
      case False
      with IH [where sofar = "AList.update (solveFrameName c) pif sofar"] Some
      show ?thesis by simp
    qed
  qed
qed

lemma alteredGoals_loop_error:
  assumes "\<forall>c' \<in> set pre. \<forall>pif'.
             worldRooted c' \<and> map_of goalPoses (solveFrameName c') = Some pif' \<longrightarrow>
             (\<exists>tf. Transform rf fs start pif' World = Inr tf)"
    and "worldRooted c" and "map_of goalPoses (solveFrameName c) = Some pif"
    and "Transform rf fs start pif World = Inl e"
  shows "alteredGoals_loop rf fs start goalPoses (pre @ c # post) sofar = Inl e"
proof -
  from alteredGoals_loop_skip [OF assms(1), where rest = "c # post" and sofar = sofar]
  obtain sofar' where "alteredGoals_loop rf fs start goalPoses (pre @ c # post) sofar =
           alteredGoals_loop rf fs start goalPoses (c # post) sofar'"
    by blast
  with assms(2-4) show ?thesis by simp
qed

text \<open>
  Claim C7, amended. A goal without a pose map is returned as it is. For a goal with a pose
  map and an aggregate in which no two chains have the same solve frame: if the transform
  succeeds for the pose goal of every world-rooted chain, the result is a goal specification
  with the configuration goals of the input and with a pose map in which the pose goal of
  every world-rooted chain is the pose transformed into World at the starting configuration
  and the pose goal of every other chain is the pose of the input, and which has no further
  entries. For a goal with a pose map and any aggregate: if the transform fails for the pose
  goal of a world-rooted chain, and succeeds for those of the world-rooted chains before it,
  the result is the error of that transform.
\<close>

theorem translateGoalsToWorldPosition_distinct_solve_frames:
  "(poses goal = None \<longrightarrow> translateGoalsToWorldPosition rf mC fs start goal = Inr goal) \<and>
   (\<forall>goalPoses.
      poses goal = Some goalPoses \<and>
      distinct (map solveFrameName (inner mC)) \<and>
      (\<forall>c \<in> set (inner mC). \<forall>pif.
          worldRooted c \<and> map_of goalPoses (solveFrameName c) = Some pif \<longrightarrow>
          (\<exists>tf. Transform rf fs start pif World = Inr tf)) \<longrightarrow>
      (\<exists>alteredGoals.
          translateGoalsToWorldPosition rf mC fs start goal =
            Inr \<lparr>poses = Some alteredGoals, configuration = configuration goal\<rparr> \<and>
          (\<forall>c \<in> set (inner mC). \<forall>pif.
              map_of goalPoses (solveFrameName c) = Some pif \<longrightarrow>
              (\<exists>v. map_of alteredGoals (solveFrameName c) = Some v \<and>
                   (if worldRooted c then Transform rf fs start pif World = Inr v
                    else v = pif))) \<and>
          (\<forall>n. n \<notin> solveFrameName ` set (inner mC) \<or> map_of goalPoses n = None \<longrightarrow>
              map_of alteredGoals n = None))) \<and>
   (\<forall>goalPoses pre c post pif e.
      poses goal = Some goalPoses \<and> inner mC = pre @ c # post \<and>
      (\<forall>c' \<in> set pre. \<forall>pif'.
          worldRooted c' \<and> map_of goalPoses (solveFrameName c') = Some pif' \<longrightarrow>
          (\<exists>tf. Transform rf fs start pif' World = Inr tf)) \<and>
      worldRooted c \<and> map_of goalPoses (solveFrameName c) = Some pif \<and>
      Transform rf fs start pif World = Inl e \<longrightarrow>
      translateGoalsToWorldPosition rf mC fs start goal = Inl e)"
proof (intro conjI allI impI)
  assume "poses goal = None"
  then show "translateGoalsToWorldPosition rf mC fs start goal = Inr goal"
    by (simp add: translateGoalsToWorldPosition_def)
next
  fix goalPoses
  assume h: "poses goal = Some goalPoses \<and>
      distinct (map solveFrameName (inner mC)) \<and>
      (\<forall>c \<in> set (inner mC). \<forall>pif.
          worldRooted c \<and> map_of goalPoses (solveFrameName c) = Some pif \<longrightarrow>
          (\<exists>tf. Transform rf fs start pif World = Inr tf))"
  then have t: "\<forall>c \<in> set (inner mC). \<forall>pif.
          worldRooted c \<and> map_of goalPoses (solveFrameName c) = Some pif \<longrightarrow>
          (\<exists>tf. Transform rf fs start pif World = Inr tf)"
    and d: "distinct (map solveFrameName (inner mC))"
    by blast+
  from alteredGoals_loop_distinct [OF d t, where sofar = "[]"]
  obtain res where run: "alteredGoals_loop rf fs start goalPoses (inner mC) [] = Inr res"
    and own: "\<forall>c \<in> set (inner mC). \<forall>pif.
              map_of goalPoses (solveFrameName c) = Some pif \<longrightarrow>
              (\<exists>v. map_of res (solveFrameName c) = Some v \<and>
                   (if worldRooted c then Transform rf fs start pif World = Inr v
                    else v = pif))"
    and other: "\<forall>n. n \<notin> solveFrameName ` set (inner mC) \<or> map_of goalPoses n = None \<longrightarrow>
              map_of res n = map_of [] n"
    by blast
  from h run have r: "translateGoalsToWorldPosition rf mC fs start goal =
            Inr \<lparr>poses = Some res, configuration = configuration goal\<rparr>"
    by (simp add: translateGoalsToWorldPosition_def)
  from other have none: "\<forall>n. n \<notin> solveFrameName ` set (inner mC) \<or> map_of goalPoses n = None \<longrightarrow>
              map_of res n = None"
    by simp
  show "\<exists>alteredGoals.
          translateGoalsToWorldPosition rf mC fs start goal =
            Inr \<lparr>poses = Some alteredGoals, configuration = configuration goal\<rparr> \<and>
          (\<forall>c \<in> set (inner mC). \<forall>pif.
              map_of goalPoses (solveFrameName c) = Some pif \<longrightarrow>
              (\<exists>v. map_of alteredGoals (solveFrameName c) = Some v \<and>
                   (if worldRooted c then Transform rf fs start pif World = Inr v
                    else v = pif))) \<and>
          (\<forall>n. n \<notin> solveFrameName ` set (inner mC) \<or> map_of goalPoses n = None \<longrightarrow>
              map_of alteredGoals n = None)"
    apply (rule exI [of _ res])
    using r own none by blast
next
  fix goalPoses pre c post pif e
  assume h: "poses goal = Some goalPoses \<and> inner mC = pre @ c # post \<and>
      (\<forall>c' \<in> set pre. \<forall>pif'.
          worldRooted c' \<and> map_of goalPoses (solveFrameName c') = Some pif' \<longrightarrow>
          (\<exists>tf. Transform rf fs start pif' World = Inr tf)) \<and>
      worldRooted c \<and> map_of goalPoses (solveFrameName c) = Some pif \<and>
      Transform rf fs start pif World = Inl e"
  then have "alteredGoals_loop rf fs start goalPoses (inner mC) [] = Inl e"
    using alteredGoals_loop_error [of pre goalPoses rf fs start c pif e post "[]"] by simp
  with h show "translateGoalsToWorldPosition rf mC fs start goal = Inl e"
    by (simp add: translateGoalsToWorldPosition_def)
qed

text \<open>
  The goal with the two pose goals, on the aggregate that \<open>motionChainsFromPlanState\<close> builds
  for it: the pose of the gripper is rewritten, the pose of the arm is not, and the camera,
  which is no solve frame, has no entry. With the pose of the gripper in a frame that the
  robot does not have, the error of the transform comes back.
\<close>

theorem translateGoalsToWorldPosition_distinct_solve_frames_witness:
  "motionChainsFromPlanState exRf exRobot exPairGoal = Inr exPairChains \<and>
   (\<exists>alteredGoals.
      translateGoalsToWorldPosition exRf exPairChains exRobot [] exPairGoal =
        Inr \<lparr>poses = Some alteredGoals, configuration = []\<rparr> \<and>
      map_of alteredGoals ''gripper'' = Some (World, 9) \<and>
      map_of alteredGoals ''arm'' = Some (''base'', 2) \<and>
      map_of alteredGoals ''camera'' = None) \<and>
   translateGoalsToWorldPosition exRf exPairChains exRobot [] exBadGoal =
     Inl (FrameMissing ''nowhere'')"
proof -
  let ?P = "[(''gripper'', (''camera'', 5::int)), (''arm'', (''base'', 2))]"
  let ?B = "[(''gripper'', (''nowhere'', 0::int)), (''arm'', (''base'', 2))]"
  let ?g = "\<lparr>movingFS = [(exFrame 2 ''arm'' 2 False, World), (exFrame 3 ''gripper'' 1 False, ''arm''),
                             (exFrame 4 ''camera'' 0 False, ''gripper'')],
                 frames = [exFrame 3 ''gripper'' 1 False, exFrame 2 ''arm'' 2 False,
                           exFrame 1 ''base'' 0 False, exWorld],
                 solveFrameName = ''gripper'', goalFrameName = ''camera'', worldRooted = True\<rparr>"
  let ?a = "\<lparr>movingFS = [(exFrame 2 ''arm'' 2 False, World), (exFrame 3 ''gripper'' 1 False, ''arm''),
                             (exFrame 4 ''camera'' 0 False, ''gripper'')],
                 frames = [exFrame 2 ''arm'' 2 False],
                 solveFrameName = ''arm'', goalFrameName = ''base'', worldRooted = False\<rparr>"
  note C = translateGoalsToWorldPosition_distinct_solve_frames
  have built: "motionChainsFromPlanState exRf exRobot exPairGoal = Inr exPairChains"
    by (simp add: motionChainsFromPlanState_def buildChains_def motionChainFromGoal_def
        movingFS_closure_def findPivotFrame_def uniqInPlaceSlice_def
        exPairGoal_def exPairChains_def exRobot_def ex_defs)
  have cs: "inner exPairChains = [?g, ?a]" by (simp add: exPairChains_def)
  have tg: "Transform exRf exRobot [] (''camera'', 5) World = Inr (World, 9)"
    by (simp add: exRobot_def ex_defs)
  have h: "poses exPairGoal = Some ?P \<and>
      distinct (map solveFrameName (inner exPairChains)) \<and>
      (\<forall>c \<in> set (inner exPairChains). \<forall>pif.
          worldRooted c \<and> map_of ?P (solveFrameName c) = Some pif \<longrightarrow>
          (\<exists>tf. Transform exRf exRobot [] pif World = Inr tf))"
    using tg by (simp add: exPairGoal_def cs)
  from C [of exPairGoal exRf exPairChains exRobot "[]"]
  have "\<forall>goalPoses.
      poses exPairGoal = Some goalPoses \<and>
      distinct (map solveFrameName (inner exPairChains)) \<and>
      (\<forall>c \<in> set (inner exPairChains). \<forall>pif.
          worldRooted c \<and> map_of goalPoses (solveFrameName c) = Some pif \<longrightarrow>
          (\<exists>tf. Transform exRf exRobot [] pif World = Inr tf)) \<longrightarrow>
      (\<exists>alteredGoals.
          translateGoalsToWorldPosition exRf exPairChains exRobot [] exPairGoal =
            Inr \<lparr>poses = Some alteredGoals, configuration = configuration exPairGoal\<rparr> \<and>
          (\<forall>c \<in> set (inner exPairChains). \<forall>pif.
              map_of goalPoses (solveFrameName c) = Some pif \<longrightarrow>
              (\<exists>v. map_of alteredGoals (solveFrameName c) = Some v \<and>
                   (if worldRooted c then Transform exRf exRobot [] pif World = Inr v
                    else v = pif))) \<and>
          (\<forall>n. n \<notin> solveFrameName ` set (inner exPairChains) \<or> map_of goalPoses n = None \<longrightarrow>
              map_of alteredGoals n = None))"
    by blast
  from this [rule_format, OF h] obtain alteredGoals where
    r: "translateGoalsToWorldPosition exRf exPairChains exRobot [] exPairGoal =
            Inr \<lparr>poses = Some alteredGoals, configuration = configuration exPairGoal\<rparr>"
    and own: "\<And>c pif. c \<in> set (inner exPairChains) \<Longrightarrow> map_of ?P (solveFrameName c) = Some pif \<Longrightarrow>
              (\<exists>v. map_of alteredGoals (solveFrameName c) = Some v \<and>
                   (if worldRooted c then Transform exRf exRobot [] pif World = Inr v
                    else v = pif))"
    and none: "\<And>n. n \<notin> solveFrameName ` set (inner exPairChains) \<or> map_of ?P n = None \<Longrightarrow>
              map_of alteredGoals n = None"
    by blast
  from own [of ?g "(''camera'', 5)"] tg have g: "map_of alteredGoals ''gripper'' = Some (World, 9)"
    by (simp add: cs)
  from own [of ?a "(''base'', 2)"] have a: "map_of alteredGoals ''arm'' = Some (''base'', 2)"
    by (simp add: cs)
  from none [of "''camera''"] have c: "map_of alteredGoals ''camera'' = None"
    by (simp add: cs)
  have ok: "\<exists>alteredGoals.
      translateGoalsToWorldPosition exRf exPairChains exRobot [] exPairGoal =
        Inr \<lparr>poses = Some alteredGoals, configuration = []\<rparr> \<and>
      map_of alteredGoals ''gripper'' = Some (World, 9) \<and>
      map_of alteredGoals ''arm'' = Some (''base'', 2) \<and>
      map_of alteredGoals ''camera'' = None"
    apply (rule exI [of _ alteredGoals])
    using r g a c by (simp add: exPairGoal_def)
  have tb: "Transform exRf exRobot [] (''nowhere'', 0) World = Inl (FrameMissing ''nowhere'')"
    by (simp add: exRobot_def ex_defs)
  have hb: "poses exBadGoal = Some ?B \<and> inner exPairChains = [] @ ?g # [?a] \<and>
      (\<forall>c' \<in> set []. \<forall>pif'.
          worldRooted c' \<and> map_of ?B (solveFrameName c') = Some pif' \<longrightarrow>
          (\<exists>tf. Transform exRf exRobot [] pif' World = Inr tf)) \<and>
      worldRooted ?g \<and> map_of ?B (solveFrameName ?g) = Some (''nowhere'', 0) \<and>
      Transform exRf exRobot [] (''nowhere'', 0) World = Inl (FrameMissing ''nowhere'')"
    using tb by (simp add: exBadGoal_def cs)
  from C [of exBadGoal exRf exPairChains exRobot "[]"]
  have "\<forall>goalPoses pre c post pif e.
      poses exBadGoal = Some goalPoses \<and> inner exPairChains = pre @ c # post \<and>
      (\<forall>c' \<in> set pre. \<forall>pif'.
          worldRooted c' \<and> map_of goalPoses (solveFrameName c') = Some pif' \<longrightarrow>
          (\<exists>tf. Transform exRf exRobot [] pif' World = Inr tf)) \<and>
      worldRooted c \<and> map_of goalPoses (solveFrameName c) = Some pif \<and>
      Transform exRf exRobot [] pif World = Inl e \<longrightarrow>
      translateGoalsToWorldPosition exRf exPairChains exRobot [] exBadGoal = Inl e"
    by blast
  from this [rule_format, OF hb]
  have bad: "translateGoalsToWorldPosition exRf exPairChains exRobot [] exBadGoal =
     Inl (FrameMissing ''nowhere'')" .
  from built ok bad show ?thesis by blast
qed

text \<open>
  Claim C7 as stated fails where a transform fails: no goal specification is returned. It
  also fails on a goal that names the gripper among the poses and among the configurations:
  the chain of the pose goal is not world-rooted, the chain of the configuration goal is, and
  the pose goal comes back rewritten.
\<close>

theorem translateGoalsToWorldPosition_counterexample:
  "translateGoalsToWorldPosition exRf exPairChains exRobot [] exBadGoal =
     Inl (FrameMissing ''nowhere'') \<and>
   motionChainsFromPlanState exRf exRobot exGoal = Inr exTwoChains \<and>
   map solveFrameName (inner exTwoChains) = [''gripper'', ''gripper''] \<and>
   map worldRooted (inner exTwoChains) = [False, True] \<and>
   translateGoalsToWorldPosition exRf exTwoChains exRobot [] exGoal =
     Inr \<lparr>poses = Some [(''gripper'', (World, 1))],
          configuration = [(''gripper'', [\<lparr>Value = 0\<rparr>])]\<rparr>"
  by (simp add: motionChainsFromPlanState_def buildChains_def motionChainFromGoal_def
      movingFS_closure_def findPivotFrame_def uniqInPlaceSlice_def translateGoalsToWorldPosition_def
      exGoal_def exTwoChains_def exBadGoal_def exPairChains_def exRobot_def ex_defs)

section \<open>The result promise\<close>

text \<open>
  Claim C9, amended. A promise that holds a precomputed sequence with at least one node
  returns that sequence from \<open>result\<close> and leaves the channel as it is, whatever the channel
  holds, also when nothing is ever sent on it.
\<close>

theorem result_precomputed:
  "steps r = Some ns \<Longrightarrow> ns \<noteq> [] \<Longrightarrow> result r = (Some (Inr ns), r)"
  by (simp add: result_def)

theorem result_precomputed_witness:
  "result \<lparr>steps = Some [1::nat, 2], future = None\<rparr> =
     (Some (Inr [1, 2]), \<lparr>steps = Some [1, 2], future = None\<rparr>)"
  using result_precomputed [of "\<lparr>steps = Some [1::nat, 2], future = None\<rparr>" "[1, 2]"] by simp

text \<open>
  Claim C9 as stated fails for a precomputed sequence without nodes: \<open>result\<close> goes to the
  channel, where it waits for ever if nothing is sent, and returns what is sent otherwise.
\<close>

theorem result_empty_precomputed_counterexample:
  "result \<lparr>steps = Some ([]::nat list), future = None\<rparr> =
     (None, \<lparr>steps = Some [], future = None\<rparr>) \<and>
   result \<lparr>steps = Some ([]::nat list), future = Some \<lparr>sol_steps = [7], sol_err = None\<rparr>\<rparr> =
     (Some (Inr [7]), \<lparr>steps = Some [], future = None\<rparr>)"
  by (simp add: result_def)

end
